theory Spec2Isabelle
  imports Main "HOL-Library.Sublist"
begin

section \<open>The Bluesky event daemon (\<^verbatim>\<open>bsky_app_daemon.py\<close>)\<close>

text \<open>
  The daemon logs in to Bluesky, then runs two loops side by side: one reads the stream of
  posts, one the stream of notifications. Each loop reshapes an incoming object into a
  dictionary and hands it to \<^verbatim>\<open>channel.publish\<close>. Everything the daemon does that can
  be seen from outside (the login call, the log records, the publish calls) is recorded,
  in order, in a trace.
\<close>

subsection \<open>Python values, exceptions and attribute access\<close>

text \<open>
  The objects that the two SDK streams yield are opaque to the daemon: it only reads
  attributes of them. A value is \<^verbatim>\<open>None\<close>, a string, or an object with named
  attributes. Reading an attribute that the value does not have raises
  \<^verbatim>\<open>AttributeError\<close>; none of the attributes the daemon reads exists on \<^verbatim>\<open>None\<close>
  or on a string. The exceptions of the model are instances of \<^verbatim>\<open>Exception\<close>, the
  class that every handler of the source names; an exception outside that class (a
  cancellation, a keyboard interrupt) is not modelled.
\<close>

datatype pyval = PyNone | PyStr string | PyObj "(string \<times> pyval) list"

datatype exn = AttributeError string | Exception string

fun exn_str :: "exn \<Rightarrow> string" where
  "exn_str (AttributeError a) = ''object has no attribute '' @ a"
| "exn_str (Exception m) = m"

fun py_str :: "pyval \<Rightarrow> string" where
  "py_str PyNone = ''None''"
| "py_str (PyStr s) = s"
| "py_str (PyObj _) = ''<object>''"

fun getattr :: "pyval \<Rightarrow> string \<Rightarrow> exn + pyval" where
  "getattr (PyObj fields) a =
     (case map_of fields a of None \<Rightarrow> Inl (AttributeError a) | Some v \<Rightarrow> Inr v)"
| "getattr PyNone a = Inl (AttributeError a)"
| "getattr (PyStr _) a = Inl (AttributeError a)"

text \<open>Sequencing of two steps of which the first may raise.\<close>

fun bind_exn :: "exn + 'a \<Rightarrow> ('a \<Rightarrow> exn + 'b) \<Rightarrow> exn + 'b" where
  "bind_exn (Inl e) f = Inl e"
| "bind_exn (Inr a) f = f a"

subsection \<open>The observable trace\<close>

type_synonym event_data = "(string \<times> pyval) list"

datatype action =
    Login "string option" "string option"
  | LogInfo string
  | LogError string
  | Publish string string event_data

text \<open>\<open>Publish c n d\<close> is one call \<^verbatim>\<open>channel.publish(n, d)\<close> on the channel named \<open>c\<close>.\<close>

fun publish_calls :: "action list \<Rightarrow> (string \<times> event_data) list" where
  "publish_calls [] = []"
| "publish_calls (Publish c n d # t) = (n, d) # publish_calls t"
| "publish_calls (_ # t) = publish_calls t"

fun error_logs :: "action list \<Rightarrow> string list" where
  "error_logs [] = []"
| "error_logs (LogError m # t) = m # error_logs t"
| "error_logs (_ # t) = error_logs t"

text \<open>The calls that carry the event name \<open>n\<close>, with their payloads, in order.\<close>

definition published_as :: "string \<Rightarrow> action list \<Rightarrow> event_data list" where
  "published_as n t = map snd (filter (\<lambda>c. fst c = n) (publish_calls t))"

subsection \<open>The daemon object and its surroundings\<close>

record daemon =
  bsky_username :: "string option"
  bsky_password :: "string option"
  ably_api_key :: "string option"
  channel_name :: string

text \<open>
  An object that a stream hands over, or the exception the stream raises instead. The
  end of the list is the end of the stream (\<^verbatim>\<open>StopAsyncIteration\<close>).
\<close>

datatype stream_item = Yield pyval | Raise exn

text \<open>
  The two SDKs are outside the repository. What they answer is a parameter: whether
  \<^verbatim>\<open>login\<close> raises, what the two streams deliver, and whether a publish call raises.
  Whether a publish call raises is taken to depend on the call alone, that is on the
  event name and the payload.
\<close>

record world =
  login_result :: "string option \<Rightarrow> string option \<Rightarrow> exn option"
  search_posts :: "stream_item list"
  notifications :: "stream_item list"
  publish_result :: "string \<Rightarrow> event_data \<Rightarrow> exn option"

subsection \<open>Construction: credentials\<close>

text \<open>Python's \<^verbatim>\<open>a or b\<close> on optional strings: \<^verbatim>\<open>None\<close> and the empty string are falsy.\<close>

fun truthy :: "string option \<Rightarrow> bool" where
  "truthy None = False"
| "truthy (Some s) = (s \<noteq> [])"

definition py_or :: "string option \<Rightarrow> string option \<Rightarrow> string option" where
  "py_or a b = (if truthy a then a else b)"

text \<open>
  \<^verbatim>\<open>load_dotenv()\<close> adds the variables of the \<^verbatim>\<open>.env\<close> file to the process
  environment and leaves a variable that is already set as it is. The constructor then
  fixes the three credentials and the channel name; setting up logging and creating the
  two SDK clients leaves no trace and is not part of the record.
\<close>

definition load_dotenv :: "(string \<rightharpoonup> string) \<Rightarrow> (string \<rightharpoonup> string) \<Rightarrow> (string \<rightharpoonup> string)" where
  "load_dotenv dotenv environ = dotenv ++ environ"

definition init ::
  "(string \<rightharpoonup> string) \<Rightarrow> (string \<rightharpoonup> string) \<Rightarrow>
   string option \<Rightarrow> string option \<Rightarrow> string option \<Rightarrow> string \<Rightarrow> daemon" where
  "init dotenv environ username password api_key channel =
     (let getenv = load_dotenv dotenv environ in
      \<lparr> bsky_username = py_or username (getenv ''BSKY_USERNAME''),
        bsky_password = py_or password (getenv ''BSKY_PASSWORD''),
        ably_api_key = py_or api_key (getenv ''ABLY_API_KEY''),
        channel_name = channel \<rparr>)"

subsection \<open>Authentication\<close>

definition auth_ok :: action where
  "auth_ok = LogInfo ''Successfully authenticated with Bluesky''"

text \<open>The trace of \<^verbatim>\<open>authenticate\<close>, and the exception it re-raises, if any.\<close>

definition authenticate :: "world \<Rightarrow> daemon \<Rightarrow> action list \<times> exn option" where
  "authenticate w self =
     (case login_result w (bsky_username self) (bsky_password self) of
        None \<Rightarrow> ([Login (bsky_username self) (bsky_password self), auth_ok], None)
      | Some e \<Rightarrow>
          ([Login (bsky_username self) (bsky_password self),
            LogError (''Authentication failed: '' @ exn_str e)], Some e))"

subsection \<open>Reshaping\<close>

definition post_event_data :: "pyval \<Rightarrow> exn + event_data" where
  "post_event_data post =
     bind_exn (bind_exn (getattr post ''author'') (\<lambda>a. getattr a ''did'')) (\<lambda>did.
     bind_exn (getattr post ''cid'') (\<lambda>cid.
     bind_exn (bind_exn (getattr post ''record'') (\<lambda>r. getattr r ''text'')) (\<lambda>text.
     bind_exn (bind_exn (getattr post ''record'') (\<lambda>r. getattr r ''created_at'')) (\<lambda>created_at.
       Inr [(''type'', PyStr ''post''), (''did'', did), (''cid'', cid),
            (''text'', text), (''timestamp'', created_at)]))))"

definition notification_event_data :: "pyval \<Rightarrow> exn + event_data" where
  "notification_event_data notification =
     bind_exn (getattr notification ''reason'') (\<lambda>reason.
     bind_exn (bind_exn (getattr notification ''author'') (\<lambda>a. getattr a ''did'')) (\<lambda>did.
     bind_exn (getattr notification ''record'') (\<lambda>record.
       Inr [(''type'', PyStr ''notification''), (''reason'', reason),
            (''author'', did), (''record'', record)])))"

subsection \<open>One turn of each loop\<close>

text \<open>
  The body of the \<^verbatim>\<open>async for\<close> in \<^verbatim>\<open>stream_posts\<close>, run on one post: build the
  dictionary, call publish, log. The result is what the body did and the exception that
  ended it, if any.
\<close>

definition post_body :: "world \<Rightarrow> daemon \<Rightarrow> pyval \<Rightarrow> action list \<times> exn option" where
  "post_body w self post =
     (case post_event_data post of
        Inl e \<Rightarrow> ([], Some e)
      | Inr d \<Rightarrow>
          (case publish_result w ''new_post'' d of
             Some e \<Rightarrow> ([Publish (channel_name self) ''new_post'' d], Some e)
           | None \<Rightarrow>
               (case bind_exn (getattr post ''author'') (\<lambda>a. getattr a ''did'') of
                  Inl e \<Rightarrow> ([Publish (channel_name self) ''new_post'' d], Some e)
                | Inr did \<Rightarrow>
                    ([Publish (channel_name self) ''new_post'' d,
                      LogInfo (''Published post from '' @ py_str did)], None))))"

definition notification_body :: "world \<Rightarrow> daemon \<Rightarrow> pyval \<Rightarrow> action list \<times> exn option" where
  "notification_body w self notification =
     (case notification_event_data notification of
        Inl e \<Rightarrow> ([], Some e)
      | Inr d \<Rightarrow>
          (case publish_result w ''notification'' d of
             Some e \<Rightarrow> ([Publish (channel_name self) ''notification'' d], Some e)
           | None \<Rightarrow>
               (case bind_exn (getattr notification ''author'') (\<lambda>a. getattr a ''did'') of
                  Inl e \<Rightarrow> ([Publish (channel_name self) ''notification'' d], Some e)
                | Inr did \<Rightarrow>
                    ([Publish (channel_name self) ''notification'' d,
                      LogInfo (''Published notification for '' @ py_str did)], None))))"

subsection \<open>The two stream loops\<close>

text \<open>
  The \<^verbatim>\<open>async for\<close> over a stream, with the loop body as a parameter. It ends when the
  stream ends, when the stream raises, or when the body raises.
\<close>

fun async_for :: "(pyval \<Rightarrow> action list \<times> exn option) \<Rightarrow> stream_item list \<Rightarrow> action list \<times> exn option" where
  "async_for body [] = ([], None)"
| "async_for body (Raise e # rest) = ([], Some e)"
| "async_for body (Yield x # rest) =
     (case body x of
        (acts, Some e) \<Rightarrow> (acts, Some e)
      | (acts, None) \<Rightarrow> (case async_for body rest of (acts', r) \<Rightarrow> (acts @ acts', r)))"

text \<open>The \<^verbatim>\<open>try\<close> around the loop: any exception is logged and the function returns.\<close>

definition stream_posts :: "world \<Rightarrow> daemon \<Rightarrow> stream_item list \<Rightarrow> action list" where
  "stream_posts w self items =
     (case async_for (post_body w self) items of
        (acts, None) \<Rightarrow> acts
      | (acts, Some e) \<Rightarrow> acts @ [LogError (''Error streaming posts: '' @ exn_str e)])"

definition stream_notifications :: "world \<Rightarrow> daemon \<Rightarrow> stream_item list \<Rightarrow> action list" where
  "stream_notifications w self items =
     (case async_for (notification_body w self) items of
        (acts, None) \<Rightarrow> acts
      | (acts, Some e) \<Rightarrow> acts @ [LogError (''Error streaming notifications: '' @ exn_str e)])"

subsection \<open>Running both loops: \<^verbatim>\<open>asyncio.gather\<close>\<close>

text \<open>
  Under \<^verbatim>\<open>gather\<close> the two coroutines take turns. A coroutine gives way only where it
  awaits, and each loop awaits only the next object of its stream; so one turn of a task
  is: take the next item and run the loop body on it. A task is either still in its loop,
  with the items its stream has yet to deliver, or it has returned.
\<close>

datatype task = Running "stream_item list" | Finished

fun resume :: "(pyval \<Rightarrow> action list \<times> exn option) \<Rightarrow> string \<Rightarrow> task \<Rightarrow> action list \<times> task" where
  "resume body msg Finished = ([], Finished)"
| "resume body msg (Running []) = ([], Finished)"
| "resume body msg (Running (Raise e # rest)) = ([LogError (msg @ exn_str e)], Finished)"
| "resume body msg (Running (Yield x # rest)) =
     (case body x of
        (acts, Some e) \<Rightarrow> (acts @ [LogError (msg @ exn_str e)], Finished)
      | (acts, None) \<Rightarrow> (acts, Running rest))"

datatype tid = PostsTask | NotificationsTask

text \<open>
  The event loop decides whose turn it is; the order of turns is a parameter, a list of
  task names. The result is the trace of those turns and the state of the two tasks
  after them.
\<close>

fun gather :: "world \<Rightarrow> daemon \<Rightarrow> tid list \<Rightarrow> task \<times> task \<Rightarrow> action list \<times> task \<times> task" where
  "gather w self [] st = ([], st)"
| "gather w self (PostsTask # sched) (p, n) =
     (case resume (post_body w self) ''Error streaming posts: '' p of
        (acts, p') \<Rightarrow> (case gather w self sched (p', n) of (acts', st) \<Rightarrow> (acts @ acts', st)))"
| "gather w self (NotificationsTask # sched) (p, n) =
     (case resume (notification_body w self) ''Error streaming notifications: '' n of
        (acts, n') \<Rightarrow> (case gather w self sched (p, n') of (acts', st) \<Rightarrow> (acts @ acts', st)))"

subsection \<open>\<^verbatim>\<open>run\<close>, \<^verbatim>\<open>main\<close> and the script\<close>

text \<open>
  How a coroutine is found after the turns observed: it has returned, it has raised, or
  it is still waiting for its streams.
\<close>

datatype outcome = Returned | Raised exn | Pending

definition run :: "world \<Rightarrow> daemon \<Rightarrow> tid list \<Rightarrow> action list \<times> outcome" where
  "run w self sched =
     (case authenticate w self of
        (acts, Some e) \<Rightarrow> (acts, Raised e)
      | (acts, None) \<Rightarrow>
          (case gather w self sched (Running (search_posts w), Running (notifications w)) of
             (acts', (Finished, Finished)) \<Rightarrow> (acts @ acts', Returned)
           | (acts', _) \<Rightarrow> (acts @ acts', Pending)))"

definition main ::
  "(string \<rightharpoonup> string) \<Rightarrow> (string \<rightharpoonup> string) \<Rightarrow> world \<Rightarrow> tid list \<Rightarrow> action list \<times> outcome" where
  "main dotenv environ w sched =
     run w (init dotenv environ None None None ''bsky-events'') sched"

text \<open>
  The script runs \<^verbatim>\<open>asyncio.run(main())\<close>. The interpreter ends with status 0 when that
  returns and with status 1 when an exception leaves it; while the daemon is still
  running there is no exit status.
\<close>

fun exit_status :: "outcome \<Rightarrow> int option" where
  "exit_status Returned = Some 0"
| "exit_status (Raised e) = Some 1"
| "exit_status Pending = None"

definition script ::
  "(string \<rightharpoonup> string) \<Rightarrow> (string \<rightharpoonup> string) \<Rightarrow> world \<Rightarrow> tid list \<Rightarrow> action list \<times> int option" where
  "script dotenv environ w sched =
     (case main dotenv environ w sched of (acts, out) \<Rightarrow> (acts, exit_status out))"

subsection \<open>Sample inputs\<close>

text \<open>The objects yielded by a stream.\<close>

fun yields :: "stream_item list \<Rightarrow> pyval list" where
  "yields [] = []"
| "yields (Yield x # rest) = x # yields rest"
| "yields (Raise e # rest) = yields rest"

definition sample_post :: "string \<Rightarrow> pyval" where
  "sample_post seq =
     PyObj [(''author'', PyObj [(''did'', PyStr ''did:plc:alice'')]),
            (''cid'', PyStr seq),
            (''record'', PyObj [(''text'', PyStr ''hello''), (''created_at'', PyStr ''t0'')])]"

definition sample_post_data :: "string \<Rightarrow> event_data" where
  "sample_post_data seq =
     [(''type'', PyStr ''post''), (''did'', PyStr ''did:plc:alice''), (''cid'', PyStr seq),
      (''text'', PyStr ''hello''), (''timestamp'', PyStr ''t0'')]"

text \<open>A post without an author: reading \<^verbatim>\<open>post.author\<close> raises.\<close>

definition malformed_post :: pyval where
  "malformed_post = PyObj [(''cid'', PyStr ''3'')]"

definition sample_notification :: "string \<Rightarrow> pyval" where
  "sample_notification reason =
     PyObj [(''reason'', PyStr reason),
            (''author'', PyObj [(''did'', PyStr ''did:plc:bob'')]),
            (''record'', PyNone)]"

definition sample_notification_data :: "string \<Rightarrow> event_data" where
  "sample_notification_data reason =
     [(''type'', PyStr ''notification''), (''reason'', PyStr reason),
      (''author'', PyStr ''did:plc:bob''), (''record'', PyNone)]"

text \<open>A world in which login succeeds and every publish call is accepted.\<close>

definition calm_world :: "stream_item list \<Rightarrow> stream_item list \<Rightarrow> world" where
  "calm_world ps ns =
     \<lparr> login_result = (\<lambda>u p. None), search_posts = ps, notifications = ns,
       publish_result = (\<lambda>n d. None) \<rparr>"

text \<open>A world in which login is refused.\<close>

definition locked_world :: "stream_item list \<Rightarrow> stream_item list \<Rightarrow> world" where
  "locked_world ps ns =
     \<lparr> login_result = (\<lambda>u p. Some (Exception ''Invalid identifier or password'')),
       search_posts = ps, notifications = ns, publish_result = (\<lambda>n d. None) \<rparr>"

text \<open>
  A world in which login succeeds and the channel refuses two payloads: a post whose
  \<open>cid\<close> is \<open>3\<close> and a notification whose \<open>reason\<close> is \<open>spam\<close>.
\<close>

definition picky_world :: "stream_item list \<Rightarrow> stream_item list \<Rightarrow> world" where
  "picky_world ps ns =
     \<lparr> login_result = (\<lambda>u p. None), search_posts = ps, notifications = ns,
       publish_result = (\<lambda>n d.
         if map_of d ''cid'' = Some (PyStr ''3'') \<or> map_of d ''reason'' = Some (PyStr ''spam'')
         then Some (Exception ''payload rejected'') else None) \<rparr>"

definition sample_daemon :: daemon where
  "sample_daemon = init Map.empty Map.empty (Some ''alice'') (Some ''pw'') (Some ''key'') ''bsky-events''"

subsection \<open>Events that go through\<close>

text \<open>An object that can be reshaped and whose publish call does not raise.\<close>

definition accepted_post :: "world \<Rightarrow> pyval \<Rightarrow> bool" where
  "accepted_post w p =
     (case post_event_data p of
        Inl e \<Rightarrow> False | Inr d \<Rightarrow> publish_result w ''new_post'' d = None)"

definition accepted_notification :: "world \<Rightarrow> pyval \<Rightarrow> bool" where
  "accepted_notification w x =
     (case notification_event_data x of
        Inl e \<Rightarrow> False | Inr d \<Rightarrow> publish_result w ''notification'' d = None)"

fun task_items :: "task \<Rightarrow> stream_item list" where
  "task_items Finished = []"
| "task_items (Running items) = items"

definition malformed_notification :: pyval where
  "malformed_notification = PyObj [(''reason'', PyStr ''like'')]"

subsection \<open>Shapes of payloads\<close>

text \<open>The keys of the dictionary built in each loop, and its \<open>type\<close> entry.\<close>

definition post_shape :: "event_data \<Rightarrow> bool" where
  "post_shape d =
     (map fst d = [''type'', ''did'', ''cid'', ''text'', ''timestamp''] \<and>
      map_of d ''type'' = Some (PyStr ''post''))"

definition notification_shape :: "event_data \<Rightarrow> bool" where
  "notification_shape d =
     (map fst d = [''type'', ''reason'', ''author'', ''record''] \<and>
      map_of d ''type'' = Some (PyStr ''notification''))"

fun well_shaped_call :: "string \<times> event_data \<Rightarrow> bool" where
  "well_shaped_call (nm, d) =
     (if nm = ''new_post'' then post_shape d
      else if nm = ''notification'' then notification_shape d
      else False)"

text \<open>
  The record shape that the specification names CanonicalEvent, read as a property of a
  payload: exactly the five fields \<open>kind\<close>, \<open>actorId\<close>, \<open>subjectId\<close>, \<open>payload\<close>,
  \<open>observedAt\<close>, with \<open>kind\<close> one of \<open>Post\<close> and \<open>Notification\<close>.
\<close>

definition spec_canonical_keys :: "string list" where
  "spec_canonical_keys = [''kind'', ''actorId'', ''subjectId'', ''payload'', ''observedAt'']"

definition spec_canonical_shape :: "event_data \<Rightarrow> bool" where
  "spec_canonical_shape d =
     (list_all (\<lambda>k. k \<in> set (map fst d)) spec_canonical_keys \<and>
      list_all (\<lambda>k. k \<in> set spec_canonical_keys) (map fst d) \<and>
      (map_of d ''kind'' = Some (PyStr ''Post'') \<or>
       map_of d ''kind'' = Some (PyStr ''Notification'')))"

subsection \<open>The bounded sink queue of the specification\<close>

text \<open>
  Modelled from the spec: the bounded per-sink queue of the Relay Core (section 4.3 of
  the specification). The source has no queue, no capacity and no drop counter; this
  record and the three definitions after it follow the words of the specification and
  nothing in \<^verbatim>\<open>bsky_app_daemon.py\<close>. A queue has a capacity fixed at configuration
  time, the queued events with the oldest first, and a drop counter.
\<close>

record 'a sink_queue =
  capacity :: nat
  queued :: "'a list"
  drop_counter :: nat


text \<open>
  Modelled from the spec: enqueuing under the \<open>DropOldest\<close> policy, which the source does
  not have. Into a queue that is not full the event is appended. When the queue is full,
  the oldest queued event is evicted, the drop counter is incremented, and the event is
  appended. The specification does not say what a queue of capacity zero does.
\<close>

definition enqueue :: "'a \<Rightarrow> 'a sink_queue \<Rightarrow> 'a sink_queue" where
  "enqueue x q =
     (if length (queued q) < capacity q
      then q\<lparr> queued := queued q @ [x] \<rparr>
      else q\<lparr> queued := tl (queued q) @ [x], drop_counter := drop_counter q + 1 \<rparr>)"


section \<open>Auxiliary facts\<close>

lemma publish_calls_append: "publish_calls (a @ b) = publish_calls a @ publish_calls b"
  by (induction a rule: publish_calls.induct) simp_all

lemma error_logs_append: "error_logs (a @ b) = error_logs a @ error_logs b"
  by (induction a rule: error_logs.induct) simp_all

lemma published_as_append: "published_as n (a @ b) = published_as n a @ published_as n b"
  by (simp add: published_as_def publish_calls_append)

lemma published_as_Nil: "published_as n [] = []"
  by (simp add: published_as_def)

lemma post_relog:
  "post_event_data p = Inr d \<Longrightarrow>
     \<exists>v. bind_exn (getattr p ''author'') (\<lambda>a. getattr a ''did'') = Inr v"
  by (cases "bind_exn (getattr p ''author'') (\<lambda>a. getattr a ''did'')")
     (simp_all add: post_event_data_def)

lemma notification_relog:
  "notification_event_data x = Inr d \<Longrightarrow>
     \<exists>v. bind_exn (getattr x ''author'') (\<lambda>a. getattr a ''did'') = Inr v"
  by (cases "getattr x ''reason''";
      cases "bind_exn (getattr x ''author'') (\<lambda>a. getattr a ''did'')")
     (simp_all add: notification_event_data_def)

lemma post_body_publishes:
  "publish_calls (fst (post_body w self p)) =
     (case post_event_data p of Inl e \<Rightarrow> [] | Inr d \<Rightarrow> [(''new_post'', d)])"
  by (simp add: post_body_def split: option.splits sum.splits)

lemma notification_body_publishes:
  "publish_calls (fst (notification_body w self x)) =
     (case notification_event_data x of Inl e \<Rightarrow> [] | Inr d \<Rightarrow> [(''notification'', d)])"
  by (simp add: notification_body_def split: option.splits sum.splits)

lemma post_body_errors: "error_logs (fst (post_body w self p)) = []"
  by (simp add: post_body_def split: option.splits sum.splits)

lemma notification_body_errors: "error_logs (fst (notification_body w self x)) = []"
  by (simp add: notification_body_def split: option.splits sum.splits)

lemma post_body_None:
  "snd (post_body w self p) = None \<Longrightarrow> \<exists>d. post_event_data p = Inr d"
  by (auto simp: post_body_def split: option.splits sum.splits)

lemma notification_body_None:
  "snd (notification_body w self x) = None \<Longrightarrow> \<exists>d. notification_event_data x = Inr d"
  by (auto simp: notification_body_def split: option.splits sum.splits)

lemma post_body_accepted:
  "accepted_post w p \<Longrightarrow> snd (post_body w self p) = None"
  using post_relog [of p]
  by (auto simp: accepted_post_def post_body_def split: sum.splits option.splits)

lemma notification_body_accepted:
  "accepted_notification w x \<Longrightarrow> snd (notification_body w self x) = None"
  using notification_relog [of x]
  by (auto simp: accepted_notification_def notification_body_def split: sum.splits option.splits)

lemma post_body_malformed: "post_event_data p = Inl e \<Longrightarrow> post_body w self p = ([], Some e)"
  by (simp add: post_body_def)

lemma notification_body_malformed:
  "notification_event_data x = Inl e \<Longrightarrow> notification_body w self x = ([], Some e)"
  by (simp add: notification_body_def)

lemma async_for_append:
  "snd (async_for body xs) = None \<Longrightarrow>
     async_for body (xs @ ys) =
       (fst (async_for body xs) @ fst (async_for body ys), snd (async_for body ys))"
proof (induction body xs rule: async_for.induct)
  case (3 body x rest)
  then show ?case
    by (auto split: prod.splits option.splits)
qed simp_all

lemma async_for_errors:
  assumes "\<And>x. error_logs (fst (body x)) = []"
  shows "error_logs (fst (async_for body xs)) = []"
proof (induction xs)
  case Nil
  show ?case by simp
next
  case (Cons i xs)
  show ?case
  proof (cases i)
    case (Yield x)
    obtain acts r where b: "body x = (acts, r)"
      by (cases "body x")
    with assms [of x] have "error_logs acts = []"
      by simp
    with b Cons Yield show ?thesis
      by (cases r; cases "async_for body xs") (simp_all add: error_logs_append)
  next
    case (Raise e)
    then show ?thesis by simp
  qed
qed

lemma async_for_all_good:
  "list_all (\<lambda>x. snd (body x) = None) xs \<Longrightarrow>
     snd (async_for body (map Yield xs)) = None \<and>
     fst (async_for body (map Yield xs)) = concat (map (\<lambda>x. fst (body x)) xs)"
  by (induction xs) (auto split: prod.splits option.splits)

lemma good_posts_published:
  "list_all (accepted_post w) ps \<Longrightarrow>
     map Inr (published_as ''new_post'' (concat (map (\<lambda>x. fst (post_body w self x)) ps))) =
       map post_event_data ps"
proof (induction ps)
  case Nil
  show ?case by (simp add: published_as_Nil)
next
  case (Cons p ps)
  from Cons.prems obtain d where d: "post_event_data p = Inr d"
    by (auto simp: accepted_post_def split: sum.splits)
  then have "published_as ''new_post'' (fst (post_body w self p)) = [d]"
    by (simp add: published_as_def post_body_publishes)
  with Cons d show ?case
    by (simp add: published_as_append)
qed

lemma good_notifications_published:
  "list_all (accepted_notification w) ns \<Longrightarrow>
     map Inr (published_as ''notification''
       (concat (map (\<lambda>x. fst (notification_body w self x)) ns))) =
       map notification_event_data ns"
proof (induction ns)
  case Nil
  show ?case by (simp add: published_as_Nil)
next
  case (Cons x ns)
  from Cons.prems obtain d where d: "notification_event_data x = Inr d"
    by (auto simp: accepted_notification_def split: sum.splits)
  then have "published_as ''notification'' (fst (notification_body w self x)) = [d]"
    by (simp add: published_as_def notification_body_publishes)
  with Cons d show ?case
    by (simp add: published_as_append)
qed

lemma published_as_log: "published_as n [LogError m] = []" "published_as n [LogInfo m] = []"
  by (simp_all add: published_as_def)

lemma concat_bodies_errors:
  "(\<And>x. error_logs (fst (body x)) = []) \<Longrightarrow> error_logs (concat (map (\<lambda>x. fst (body x)) xs)) = []"
  by (induction xs) (simp_all add: error_logs_append)

lemma loop_prefix_then_raise:
  assumes "list_all (\<lambda>x. snd (body x) = None) pre" and "body bad = ([], Some e)"
  shows "async_for body (map Yield pre @ Yield bad # rest) =
           (concat (map (\<lambda>x. fst (body x)) pre), Some e)"
proof -
  from assms(1) have "snd (async_for body (map Yield pre)) = None"
    and "fst (async_for body (map Yield pre)) = concat (map (\<lambda>x. fst (body x)) pre)"
    by (simp_all add: async_for_all_good)
  moreover from assms(2) have "async_for body (Yield bad # rest) = ([], Some e)"
    by simp
  ultimately show ?thesis
    by (simp add: async_for_append)
qed

lemma sample_post_reshaped: "post_event_data (sample_post s) = Inr (sample_post_data s)"
  by (simp add: post_event_data_def sample_post_def sample_post_data_def)

lemma sample_notification_reshaped:
  "notification_event_data (sample_notification r) = Inr (sample_notification_data r)"
  by (simp add: notification_event_data_def sample_notification_def sample_notification_data_def)

lemma malformed_post_raises: "post_event_data malformed_post = Inl (AttributeError ''author'')"
  by (simp add: post_event_data_def malformed_post_def)

lemma post_body_published:
  "published_as ''new_post'' (fst (post_body w self p)) =
     (case post_event_data p of Inl e \<Rightarrow> [] | Inr d \<Rightarrow> [d])"
  "published_as ''notification'' (fst (post_body w self p)) = []"
  by (simp_all add: published_as_def post_body_publishes split: sum.splits)

lemma notification_body_published:
  "published_as ''notification'' (fst (notification_body w self x)) =
     (case notification_event_data x of Inl e \<Rightarrow> [] | Inr d \<Rightarrow> [d])"
  "published_as ''new_post'' (fst (notification_body w self x)) = []"
  by (simp_all add: published_as_def notification_body_publishes split: sum.splits)

lemma resume_published:
  "published_as nm (fst (resume body msg t)) =
     (case t of Running (Yield x # rest) \<Rightarrow> published_as nm (fst (body x)) | _ \<Rightarrow> [])"
  by (cases "(body, msg, t)" rule: resume.cases)
     (auto simp: published_as_Nil published_as_log published_as_append split: prod.splits option.splits)

lemma resume_fifo:
  assumes body: "\<And>x. published_as nm (fst (body x)) = (case f x of Inl e \<Rightarrow> [] | Inr d \<Rightarrow> [d])"
    and ok: "\<And>x. snd (body x) = None \<Longrightarrow> \<exists>d. f x = Inr d"
    and later: "\<exists>k. map Inr later = map f (take k (yields (task_items (snd (resume body msg t)))))"
  shows "\<exists>k. map Inr (published_as nm (fst (resume body msg t)) @ later) =
              map f (take k (yields (task_items t)))"
proof (cases "(body, msg, t)" rule: resume.cases)
  case (1 b m)
  with later show ?thesis by (simp add: published_as_Nil)
next
  case (2 b m)
  with later show ?thesis by (simp add: published_as_Nil)
next
  case (3 b m e rest)
  with later have "later = []" by simp
  with 3 have "map Inr (published_as nm (fst (resume body msg t)) @ later) =
      map f (take 0 (yields (task_items t)))"
    by (simp add: published_as_log)
  then show ?thesis ..
next
  case (4 b m x rest)
  obtain acts r where b: "body x = (acts, r)"
    by (cases "body x")
  show ?thesis
  proof (cases r)
    case None
    with b ok [of x] obtain d where d: "f x = Inr d"
      by auto
    with body [of x] b have p: "published_as nm acts = [d]"
      by simp
    from later 4 b None obtain k where "map Inr later = map f (take k (yields rest))"
      by auto
    with 4 b None p d
    have "map Inr (published_as nm (fst (resume body msg t)) @ later) =
        map f (take (Suc k) (yields (task_items t)))"
      by simp
    then show ?thesis ..
  next
    case (Some e)
    with later 4 b have l: "later = []"
      by simp
    show ?thesis
    proof (cases "f x")
      case (Inl e')
      with body [of x] b have "published_as nm acts = []"
        by simp
      with 4 b Some l
      have "map Inr (published_as nm (fst (resume body msg t)) @ later) =
          map f (take 0 (yields (task_items t)))"
        by (simp add: published_as_append published_as_log)
      then show ?thesis ..
    next
      case (Inr d)
      with body [of x] b have "published_as nm acts = [d]"
        by simp
      with 4 b Some l Inr
      have "map Inr (published_as nm (fst (resume body msg t)) @ later) =
          map f (take 1 (yields (task_items t)))"
        by (simp add: published_as_append published_as_log)
      then show ?thesis ..
    qed
  qed
qed

lemma gather_trace:
  "fst (gather w self (PostsTask # sched) (p, n)) =
     fst (resume (post_body w self) ''Error streaming posts: '' p) @
     fst (gather w self sched (snd (resume (post_body w self) ''Error streaming posts: '' p), n))"
  "fst (gather w self (NotificationsTask # sched) (p, n)) =
     fst (resume (notification_body w self) ''Error streaming notifications: '' n) @
     fst (gather w self sched
       (p, snd (resume (notification_body w self) ''Error streaming notifications: '' n)))"
  by (simp_all split: prod.splits)

lemma gather_tasks:
  "snd (gather w self (PostsTask # sched) (p, n)) =
     snd (gather w self sched (snd (resume (post_body w self) ''Error streaming posts: '' p), n))"
  "snd (gather w self (NotificationsTask # sched) (p, n)) =
     snd (gather w self sched
       (p, snd (resume (notification_body w self) ''Error streaming notifications: '' n)))"
  by (simp_all split: prod.splits)

lemma gather_posts_fifo:
  "\<exists>k. map Inr (published_as ''new_post'' (fst (gather w self sched (p, n)))) =
        map post_event_data (take k (yields (task_items p)))"
proof (induction sched arbitrary: p n)
  case Nil
  have "map Inr (published_as ''new_post'' (fst (gather w self [] (p, n)))) =
      map post_event_data (take 0 (yields (task_items p)))"
    by (simp add: published_as_Nil)
  then show ?case ..
next
  case (Cons t sched)
  show ?case
  proof (cases t)
    case PostsTask
    let ?r = "resume (post_body w self) ''Error streaming posts: '' p"
    let ?later = "published_as ''new_post'' (fst (gather w self sched (snd ?r, n)))"
    have "\<exists>k. map Inr (published_as ''new_post'' (fst ?r) @ ?later) =
        map post_event_data (take k (yields (task_items p)))"
      by (rule resume_fifo) (simp_all add: post_body_published post_body_None Cons.IH)
    then show ?thesis
      by (simp add: PostsTask published_as_append gather_trace del: gather.simps)
  next
    case NotificationsTask
    let ?r = "resume (notification_body w self) ''Error streaming notifications: '' n"
    have "published_as ''new_post'' (fst ?r) = []"
      by (simp add: resume_published notification_body_published split: task.splits list.splits stream_item.splits)
    with Cons.IH [of p "snd ?r"] show ?thesis
      by (simp add: NotificationsTask published_as_append gather_trace del: gather.simps)
  qed
qed

lemma gather_notifications_fifo:
  "\<exists>k. map Inr (published_as ''notification'' (fst (gather w self sched (p, n)))) =
        map notification_event_data (take k (yields (task_items n)))"
proof (induction sched arbitrary: p n)
  case Nil
  have "map Inr (published_as ''notification'' (fst (gather w self [] (p, n)))) =
      map notification_event_data (take 0 (yields (task_items n)))"
    by (simp add: published_as_Nil)
  then show ?case ..
next
  case (Cons t sched)
  show ?case
  proof (cases t)
    case NotificationsTask
    let ?r = "resume (notification_body w self) ''Error streaming notifications: '' n"
    let ?later = "published_as ''notification'' (fst (gather w self sched (p, snd ?r)))"
    have "\<exists>k. map Inr (published_as ''notification'' (fst ?r) @ ?later) =
        map notification_event_data (take k (yields (task_items n)))"
      by (rule resume_fifo)
         (simp_all add: notification_body_published notification_body_None Cons.IH)
    then show ?thesis
      by (simp add: NotificationsTask published_as_append gather_trace del: gather.simps)
  next
    case PostsTask
    let ?r = "resume (post_body w self) ''Error streaming posts: '' p"
    have "published_as ''notification'' (fst ?r) = []"
      by (simp add: resume_published post_body_published split: task.splits list.splits stream_item.splits)
    with Cons.IH [of "snd ?r" n] show ?thesis
      by (simp add: PostsTask published_as_append gather_trace del: gather.simps)
  qed
qed

lemma authenticate_published: "published_as nm (fst (authenticate w self)) = []"
  by (simp add: authenticate_def published_as_def auth_ok_def split: option.splits)

lemma run_trace:
  "fst (run w self sched) =
     (case snd (authenticate w self) of
        Some e \<Rightarrow> fst (authenticate w self)
      | None \<Rightarrow> fst (authenticate w self) @
          fst (gather w self sched (Running (search_posts w), Running (notifications w))))"
  by (simp add: run_def split: prod.splits option.splits task.splits)

lemma bind_exn_Inr: "bind_exn m f = Inr y \<longleftrightarrow> (\<exists>x. m = Inr x \<and> f x = Inr y)"
  by (cases m) simp_all

lemma post_event_data_shape: "post_event_data p = Inr d \<Longrightarrow> post_shape d"
  by (auto simp: post_event_data_def post_shape_def bind_exn_Inr)

lemma notification_event_data_shape:
  "notification_event_data x = Inr d \<Longrightarrow> notification_shape d"
  by (auto simp: notification_event_data_def notification_shape_def bind_exn_Inr)

lemma post_body_shape: "list_all well_shaped_call (publish_calls (fst (post_body w self p)))"
  by (cases "post_event_data p") (simp_all add: post_body_publishes post_event_data_shape)

lemma notification_body_shape:
  "list_all well_shaped_call (publish_calls (fst (notification_body w self x)))"
  by (cases "notification_event_data x")
     (simp_all add: notification_body_publishes notification_event_data_shape)

lemma resume_calls:
  "publish_calls (fst (resume body msg t)) =
     (case t of Running (Yield x # rest) \<Rightarrow> publish_calls (fst (body x)) | _ \<Rightarrow> [])"
  by (cases "(body, msg, t)" rule: resume.cases)
     (auto simp: publish_calls_append split: prod.splits option.splits)

lemma resume_shape:
  assumes "\<And>x. list_all well_shaped_call (publish_calls (fst (body x)))"
  shows "list_all well_shaped_call (publish_calls (fst (resume body msg t)))"
  using assms by (simp add: resume_calls split: task.splits list.splits stream_item.splits)

lemma gather_shape: "list_all well_shaped_call (publish_calls (fst (gather w self sched (p, n))))"
proof (induction sched arbitrary: p n)
  case Nil
  show ?case by simp
next
  case (Cons t sched)
  show ?case
  proof (cases t)
    case PostsTask
    with Cons show ?thesis
      by (simp add: gather_trace publish_calls_append resume_shape post_body_shape
          del: gather.simps)
  next
    case NotificationsTask
    with Cons show ?thesis
      by (simp add: gather_trace publish_calls_append resume_shape notification_body_shape
          del: gather.simps)
  qed
qed

lemma authenticate_calls: "publish_calls (fst (authenticate w self)) = []"
  by (simp add: authenticate_def auth_ok_def split: option.splits)

lemma stream_posts_trace:
  "stream_posts w self items =
     fst (async_for (post_body w self) items) @
     (case snd (async_for (post_body w self) items) of
        None \<Rightarrow> [] | Some e \<Rightarrow> [LogError (''Error streaming posts: '' @ exn_str e)])"
  by (simp add: stream_posts_def split: prod.splits option.splits)

lemma stream_notifications_trace:
  "stream_notifications w self items =
     fst (async_for (notification_body w self) items) @
     (case snd (async_for (notification_body w self) items) of
        None \<Rightarrow> []
      | Some e \<Rightarrow> [LogError (''Error streaming notifications: '' @ exn_str e)])"
  by (simp add: stream_notifications_def split: prod.splits option.splits)

lemma stream_posts_errors:
  "error_logs (stream_posts w self items) =
     (case snd (async_for (post_body w self) items) of
        None \<Rightarrow> [] | Some e \<Rightarrow> [''Error streaming posts: '' @ exn_str e])"
  using async_for_errors [of "post_body w self" items]
  by (simp add: stream_posts_trace post_body_errors error_logs_append split: option.splits)

lemma stream_notifications_errors:
  "error_logs (stream_notifications w self items) =
     (case snd (async_for (notification_body w self) items) of
        None \<Rightarrow> [] | Some e \<Rightarrow> [''Error streaming notifications: '' @ exn_str e])"
  using async_for_errors [of "notification_body w self" items]
  by (simp add: stream_notifications_trace notification_body_errors error_logs_append
      split: option.splits)

lemma async_for_Yield_ok:
  "snd (body x) = None \<Longrightarrow>
     async_for body (Yield x # rest) =
       (fst (body x) @ fst (async_for body rest), snd (async_for body rest))"
  by (cases "body x"; cases "async_for body rest") simp

lemma async_for_calls:
  assumes body: "\<And>x. publish_calls (fst (body x)) = (case f x of Inl e \<Rightarrow> [] | Inr d \<Rightarrow> [(nm, d)])"
    and ok: "\<And>x. snd (body x) = None \<Longrightarrow> \<exists>d. f x = Inr d"
  shows "\<exists>k ds. publish_calls (fst (async_for body items)) = map (Pair nm) ds \<and>
                  map Inr ds = map f (take k (yields items))"
proof (induction items)
  case Nil
  have "publish_calls (fst (async_for body [])) = map (Pair nm) [] \<and>
      map Inr [] = map f (take 0 (yields []))"
    by simp
  then show ?case by blast
next
  case (Cons i items)
  show ?case
  proof (cases i)
    case (Raise e)
    then have "publish_calls (fst (async_for body (i # items))) = map (Pair nm) [] \<and>
        map Inr [] = map f (take 0 (yields (i # items)))"
      by simp
    then show ?thesis by blast
  next
    case (Yield x)
    obtain acts r where b: "body x = (acts, r)"
      by (cases "body x")
    show ?thesis
    proof (cases r)
      case None
      with b ok [of x] obtain d where d: "f x = Inr d"
        by auto
      with body [of x] b have c: "publish_calls acts = [(nm, d)]"
        by simp
      from Cons.IH obtain k ds where
        "publish_calls (fst (async_for body items)) = map (Pair nm) ds"
        "map Inr ds = map f (take k (yields items))"
        by blast
      with Yield b None c d
      have "publish_calls (fst (async_for body (i # items))) = map (Pair nm) (d # ds) \<and>
          map Inr (d # ds) = map f (take (Suc k) (yields (i # items)))"
        by (simp add: async_for_Yield_ok publish_calls_append del: async_for.simps)
      then show ?thesis by blast
    next
      case (Some e)
      show ?thesis
      proof (cases "f x")
        case (Inl e')
        with body [of x] b have "publish_calls acts = []"
          by simp
        with Yield b Some
        have "publish_calls (fst (async_for body (i # items))) = map (Pair nm) [] \<and>
            map Inr [] = map f (take 0 (yields (i # items)))"
          by simp
        then show ?thesis by blast
      next
        case (Inr d)
        with body [of x] b have "publish_calls acts = [(nm, d)]"
          by simp
        with Yield b Some Inr
        have "publish_calls (fst (async_for body (i # items))) = map (Pair nm) [d] \<and>
            map Inr [d] = map f (take 1 (yields (i # items)))"
          by simp
        then show ?thesis by blast
      qed
    qed
  qed
qed

lemma published_as_skip:
  "published_as nm (LogError m # t) = published_as nm t"
  "published_as nm (LogInfo m # t) = published_as nm t"
  by (simp_all add: published_as_def)

lemma resume_ok:
  "snd (body x) = None \<Longrightarrow>
     resume body msg (Running (Yield x # rest)) = (fst (body x), Running rest)"
  by (cases "body x") simp

lemma gather_posts_frame:
  "published_as ''notification'' (fst (gather w self sched (p, n))) =
     published_as ''notification'' (fst (gather w self sched (p', n))) \<and>
   snd (snd (gather w self sched (p, n))) = snd (snd (gather w self sched (p', n)))"
proof (induction sched arbitrary: p p' n)
  case Nil
  show ?case by simp
next
  case (Cons t sched)
  show ?case
  proof (cases t)
    case PostsTask
    have q: "published_as ''notification''
        (fst (resume (post_body w self) ''Error streaming posts: '' q)) = []" for q
      by (simp add: resume_published post_body_published
          split: task.splits list.splits stream_item.splits)
    show ?thesis
      using Cons.IH [of "snd (resume (post_body w self) ''Error streaming posts: '' p)" n
          "snd (resume (post_body w self) ''Error streaming posts: '' p')"]
      by (simp add: PostsTask gather_trace gather_tasks published_as_append q
          del: gather.simps)
  next
    case NotificationsTask
    show ?thesis
      using Cons.IH [of p
          "snd (resume (notification_body w self) ''Error streaming notifications: '' n)" p']
      by (simp add: NotificationsTask gather_trace gather_tasks published_as_append
          del: gather.simps)
  qed
qed

lemma gather_notifications_frame:
  "published_as ''new_post'' (fst (gather w self sched (p, n))) =
     published_as ''new_post'' (fst (gather w self sched (p, n'))) \<and>
   fst (snd (gather w self sched (p, n))) = fst (snd (gather w self sched (p, n')))"
proof (induction sched arbitrary: p n n')
  case Nil
  show ?case by simp
next
  case (Cons t sched)
  show ?case
  proof (cases t)
    case NotificationsTask
    have q: "published_as ''new_post''
        (fst (resume (notification_body w self) ''Error streaming notifications: '' q)) = []" for q
      by (simp add: resume_published notification_body_published
          split: task.splits list.splits stream_item.splits)
    show ?thesis
      using Cons.IH [of p
          "snd (resume (notification_body w self) ''Error streaming notifications: '' n)"
          "snd (resume (notification_body w self) ''Error streaming notifications: '' n')"]
      by (simp add: NotificationsTask gather_trace gather_tasks published_as_append q
          del: gather.simps)
  next
    case PostsTask
    show ?thesis
      using Cons.IH [of "snd (resume (post_body w self) ''Error streaming posts: '' p)" n n']
      by (simp add: PostsTask gather_trace gather_tasks published_as_append
          del: gather.simps)
  qed
qed

lemma notifications_turns:
  "list_all (accepted_notification w) xs \<Longrightarrow>
     fst (gather w self (replicate (length xs) NotificationsTask) (p, Running (map Yield xs))) =
       concat (map (\<lambda>x. fst (notification_body w self x)) xs)"
proof (induction xs)
  case Nil
  show ?case by simp
next
  case (Cons x xs)
  then have "snd (notification_body w self x) = None"
    by (simp add: notification_body_accepted)
  then have "resume (notification_body w self) ''Error streaming notifications: ''
      (Running (Yield x # map Yield xs)) = (fst (notification_body w self x), Running (map Yield xs))"
    by (rule resume_ok)
  with Cons show ?case
    by (simp add: gather_trace del: gather.simps)
qed

lemma posts_turns:
  "list_all (accepted_post w) xs \<Longrightarrow>
     fst (gather w self (replicate (length xs) PostsTask) (Running (map Yield xs), n)) =
       concat (map (\<lambda>x. fst (post_body w self x)) xs)"
proof (induction xs)
  case Nil
  show ?case by simp
next
  case (Cons x xs)
  then have "snd (post_body w self x) = None"
    by (simp add: post_body_accepted)
  then have "resume (post_body w self) ''Error streaming posts: ''
      (Running (Yield x # map Yield xs)) = (fst (post_body w self x), Running (map Yield xs))"
    by (rule resume_ok)
  with Cons show ?case
    by (simp add: gather_trace del: gather.simps)
qed

lemma enqueue_capacity: "capacity (enqueue x q) = capacity q"
  by (simp add: enqueue_def)


lemma post_body_rejected:
  "post_event_data x = Inr d \<Longrightarrow> publish_result w ''new_post'' d = Some e \<Longrightarrow>
     post_body w self x = ([Publish (channel_name self) ''new_post'' d], Some e)"
  by (simp add: post_body_def)

lemma notification_body_rejected:
  "notification_event_data x = Inr d \<Longrightarrow> publish_result w ''notification'' d = Some e \<Longrightarrow>
     notification_body w self x = ([Publish (channel_name self) ''notification'' d], Some e)"
  by (simp add: notification_body_def)

lemma loop_prefix_then_stop:
  assumes "list_all (\<lambda>x. snd (body x) = None) pre" and "body bad = (acts, Some e)"
  shows "async_for body (map Yield pre @ Yield bad # rest) =
           (fst (async_for body (map Yield pre)) @ acts, Some e)"
proof -
  from assms(1) have "snd (async_for body (map Yield pre)) = None"
    by (simp add: async_for_all_good)
  moreover from assms(2) have "async_for body (Yield bad # rest) = (acts, Some e)"
    by simp
  ultimately show ?thesis
    by (simp add: async_for_append)
qed

lemma loop_prefix_then_Raise:
  assumes "list_all (\<lambda>x. snd (body x) = None) pre"
  shows "async_for body (map Yield pre @ Raise e # rest) =
           (fst (async_for body (map Yield pre)), Some e)"
proof -
  from assms have "snd (async_for body (map Yield pre)) = None"
    by (simp add: async_for_all_good)
  then show ?thesis
    by (simp add: async_for_append)
qed

lemma stream_posts_all_good:
  assumes "list_all (accepted_post w) pre"
  shows "stream_posts w self (map Yield pre) = fst (async_for (post_body w self) (map Yield pre))"
    and "list_all (\<lambda>x. snd (post_body w self x) = None) pre"
    and "error_logs (stream_posts w self (map Yield pre)) = []"
    and "map Inr (published_as ''new_post'' (stream_posts w self (map Yield pre))) =
           map post_event_data pre"
    and "length (publish_calls (stream_posts w self (map Yield pre))) = length pre"
proof -
  let ?acts = "concat (map (\<lambda>x. fst (post_body w self x)) pre)"
  show ok: "list_all (\<lambda>x. snd (post_body w self x) = None) pre"
    using assms by (simp add: list_all_iff post_body_accepted)
  then show t: "stream_posts w self (map Yield pre) =
      fst (async_for (post_body w self) (map Yield pre))"
    using async_for_all_good [of "post_body w self" pre]
    by (simp add: stream_posts_trace)
  from ok have t': "stream_posts w self (map Yield pre) = ?acts"
    using async_for_all_good [of "post_body w self" pre]
    by (simp add: stream_posts_trace)
  show "error_logs (stream_posts w self (map Yield pre)) = []"
    unfolding t' by (rule concat_bodies_errors) (rule post_body_errors)
  show "map Inr (published_as ''new_post'' (stream_posts w self (map Yield pre))) =
      map post_event_data pre"
    using assms by (simp add: t' good_posts_published)
  show "length (publish_calls (stream_posts w self (map Yield pre))) = length pre"
    unfolding t' using assms
    by (induction pre)
      (auto simp: publish_calls_append post_body_publishes accepted_post_def split: sum.splits)
qed

lemma stream_notifications_all_good:
  assumes "list_all (accepted_notification w) pre"
  shows "stream_notifications w self (map Yield pre) =
           fst (async_for (notification_body w self) (map Yield pre))"
    and "list_all (\<lambda>x. snd (notification_body w self x) = None) pre"
    and "error_logs (stream_notifications w self (map Yield pre)) = []"
    and "map Inr (published_as ''notification'' (stream_notifications w self (map Yield pre))) =
           map notification_event_data pre"
    and "length (publish_calls (stream_notifications w self (map Yield pre))) = length pre"
proof -
  let ?acts = "concat (map (\<lambda>x. fst (notification_body w self x)) pre)"
  show ok: "list_all (\<lambda>x. snd (notification_body w self x) = None) pre"
    using assms by (simp add: list_all_iff notification_body_accepted)
  then show t: "stream_notifications w self (map Yield pre) =
      fst (async_for (notification_body w self) (map Yield pre))"
    using async_for_all_good [of "notification_body w self" pre]
    by (simp add: stream_notifications_trace)
  from ok have t': "stream_notifications w self (map Yield pre) = ?acts"
    using async_for_all_good [of "notification_body w self" pre]
    by (simp add: stream_notifications_trace)
  show "error_logs (stream_notifications w self (map Yield pre)) = []"
    unfolding t' by (rule concat_bodies_errors) (rule notification_body_errors)
  show "map Inr (published_as ''notification'' (stream_notifications w self (map Yield pre))) =
      map notification_event_data pre"
    using assms by (simp add: t' good_notifications_published)
  show "length (publish_calls (stream_notifications w self (map Yield pre))) = length pre"
    unfolding t' using assms
    by (induction pre)
      (auto simp: publish_calls_append notification_body_publishes accepted_notification_def
            split: sum.splits)
qed

lemma stream_posts_errors_le: "length (error_logs (stream_posts w self items)) \<le> 1"
  by (simp add: stream_posts_errors split: option.splits)

lemma stream_notifications_errors_le:
  "length (error_logs (stream_notifications w self items)) \<le> 1"
  by (simp add: stream_notifications_errors split: option.splits)

lemma stream_posts_calls:
  "publish_calls (stream_posts w self items) =
     publish_calls (fst (async_for (post_body w self) items))"
  by (simp add: stream_posts_trace publish_calls_append split: option.splits)

lemma stream_notifications_calls:
  "publish_calls (stream_notifications w self items) =
     publish_calls (fst (async_for (notification_body w self) items))"
  by (simp add: stream_notifications_trace publish_calls_append split: option.splits)

lemma stream_posts_calls_Yield:
  "publish_calls (stream_posts w self (Yield x # rest)) =
     (case post_event_data x of
        Inl e \<Rightarrow> []
      | Inr d \<Rightarrow> (''new_post'', d) #
          (case publish_result w ''new_post'' d of
             None \<Rightarrow> publish_calls (stream_posts w self rest)
           | Some e \<Rightarrow> []))"
proof (cases "post_event_data x")
  case (Inl e)
  then show ?thesis
    by (simp add: stream_posts_calls post_body_malformed)
next
  case (Inr d)
  show ?thesis
  proof (cases "publish_result w ''new_post'' d")
    case None
    with Inr have "accepted_post w x"
      by (simp add: accepted_post_def)
    then have "snd (post_body w self x) = None"
      by (rule post_body_accepted)
    with Inr None show ?thesis
      by (simp add: stream_posts_calls async_for_Yield_ok publish_calls_append
          post_body_publishes del: async_for.simps)
  next
    case (Some e)
    with Inr show ?thesis
      by (simp add: stream_posts_calls post_body_rejected)
  qed
qed

lemma stream_notifications_calls_Yield:
  "publish_calls (stream_notifications w self (Yield x # rest)) =
     (case notification_event_data x of
        Inl e \<Rightarrow> []
      | Inr d \<Rightarrow> (''notification'', d) #
          (case publish_result w ''notification'' d of
             None \<Rightarrow> publish_calls (stream_notifications w self rest)
           | Some e \<Rightarrow> []))"
proof (cases "notification_event_data x")
  case (Inl e)
  then show ?thesis
    by (simp add: stream_notifications_calls notification_body_malformed)
next
  case (Inr d)
  show ?thesis
  proof (cases "publish_result w ''notification'' d")
    case None
    with Inr have "accepted_notification w x"
      by (simp add: accepted_notification_def)
    then have "snd (notification_body w self x) = None"
      by (rule notification_body_accepted)
    with Inr None show ?thesis
      by (simp add: stream_notifications_calls async_for_Yield_ok publish_calls_append
          notification_body_publishes del: async_for.simps)
  next
    case (Some e)
    with Inr show ?thesis
      by (simp add: stream_notifications_calls notification_body_rejected)
  qed
qed

lemma received_post_is_published:
  "list_all (accepted_post w) pre \<Longrightarrow> post_event_data x = Inr d \<Longrightarrow>
     \<exists>ds. take (Suc (length pre))
            (publish_calls (stream_posts w self (map Yield pre @ Yield x # rest))) =
            map (Pair ''new_post'') (ds @ [d]) \<and>
          map Inr ds = map post_event_data pre"
proof (induction pre)
  case Nil
  then have "take (Suc (length []))
      (publish_calls (stream_posts w self (map Yield [] @ Yield x # rest))) =
      map (Pair ''new_post'') ([] @ [d]) \<and> map Inr [] = map post_event_data []"
    by (simp add: stream_posts_calls_Yield)
  then show ?case by blast
next
  case (Cons p pre)
  from Cons.prems obtain dp where dp: "post_event_data p = Inr dp"
    "publish_result w ''new_post'' dp = None"
    by (auto simp: accepted_post_def split: sum.splits)
  from Cons obtain ds where ds:
    "take (Suc (length pre))
       (publish_calls (stream_posts w self (map Yield pre @ Yield x # rest))) =
       map (Pair ''new_post'') (ds @ [d])"
    "map Inr ds = map post_event_data pre"
    by auto
  with dp have "take (Suc (length (p # pre)))
      (publish_calls (stream_posts w self (map Yield (p # pre) @ Yield x # rest))) =
      map (Pair ''new_post'') ((dp # ds) @ [d]) \<and>
      map Inr (dp # ds) = map post_event_data (p # pre)"
    by (simp add: stream_posts_calls_Yield)
  then show ?case by blast
qed

lemma received_notification_is_published:
  "list_all (accepted_notification w) pre \<Longrightarrow> notification_event_data x = Inr d \<Longrightarrow>
     \<exists>ds. take (Suc (length pre))
            (publish_calls (stream_notifications w self (map Yield pre @ Yield x # rest))) =
            map (Pair ''notification'') (ds @ [d]) \<and>
          map Inr ds = map notification_event_data pre"
proof (induction pre)
  case Nil
  then have "take (Suc (length []))
      (publish_calls (stream_notifications w self (map Yield [] @ Yield x # rest))) =
      map (Pair ''notification'') ([] @ [d]) \<and> map Inr [] = map notification_event_data []"
    by (simp add: stream_notifications_calls_Yield)
  then show ?case by blast
next
  case (Cons p pre)
  from Cons.prems obtain dp where dp: "notification_event_data p = Inr dp"
    "publish_result w ''notification'' dp = None"
    by (auto simp: accepted_notification_def split: sum.splits)
  from Cons obtain ds where ds:
    "take (Suc (length pre))
       (publish_calls (stream_notifications w self (map Yield pre @ Yield x # rest))) =
       map (Pair ''notification'') (ds @ [d])"
    "map Inr ds = map notification_event_data pre"
    by auto
  with dp have "take (Suc (length (p # pre)))
      (publish_calls (stream_notifications w self (map Yield (p # pre) @ Yield x # rest))) =
      map (Pair ''notification'') ((dp # ds) @ [d]) \<and>
      map Inr (dp # ds) = map notification_event_data (p # pre)"
    by (simp add: stream_notifications_calls_Yield)
  then show ?case by blast
qed

lemma stream_calls_ends:
  "publish_calls (stream_posts w self []) = []"
  "publish_calls (stream_posts w self (Raise e # rest)) = []"
  "publish_calls (stream_notifications w self []) = []"
  "publish_calls (stream_notifications w self (Raise e # rest)) = []"
  by (simp_all add: stream_posts_calls stream_notifications_calls)

section \<open>Claims\<close>

subsection \<open>A malformed event\<close>

text \<open>
  C1 (as amended). An event whose reshaping raises ends the loop of its stream. When the
  events before it all went through, exactly those are published, in order; the malformed
  event and every later event of the stream are not published; and one error record
  naming the cause is logged. This holds for the post loop and for the notification
  loop. The daemon has no drop counter.
\<close>

theorem malformed_event_ends_stream:
  "(list_all (accepted_post w) pre \<and> post_event_data bad = Inl e \<longrightarrow>
      map Inr (published_as ''new_post''
        (stream_posts w self (map Yield pre @ Yield bad # rest))) = map post_event_data pre \<and>
      length (publish_calls (stream_posts w self (map Yield pre @ Yield bad # rest))) = length pre \<and>
      error_logs (stream_posts w self (map Yield pre @ Yield bad # rest)) =
        [''Error streaming posts: '' @ exn_str e]) \<and>
   (list_all (accepted_notification w) pre \<and> notification_event_data bad = Inl e \<longrightarrow>
      map Inr (published_as ''notification''
        (stream_notifications w self (map Yield pre @ Yield bad # rest))) =
        map notification_event_data pre \<and>
      length (publish_calls (stream_notifications w self (map Yield pre @ Yield bad # rest))) = length pre \<and>
      error_logs (stream_notifications w self (map Yield pre @ Yield bad # rest)) =
        [''Error streaming notifications: '' @ exn_str e])"
proof (intro conjI impI)
  assume a: "list_all (accepted_post w) pre \<and> post_event_data bad = Inl e"
  let ?t = "stream_posts w self (map Yield pre @ Yield bad # rest)"
  let ?acts = "concat (map (\<lambda>x. fst (post_body w self x)) pre)"
  from a have "list_all (\<lambda>x. snd (post_body w self x) = None) pre"
    by (simp add: list_all_iff post_body_accepted)
  moreover from a have "post_body w self bad = ([], Some e)"
    by (simp add: post_body_malformed)
  ultimately have t: "?t = ?acts @ [LogError (''Error streaming posts: '' @ exn_str e)]"
    by (simp add: stream_posts_def loop_prefix_then_raise)
  have pub: "map Inr (published_as ''new_post'' ?acts) = map post_event_data pre"
    using a by (simp add: good_posts_published)
  show "map Inr (published_as ''new_post'' ?t) = map post_event_data pre"
    using pub by (simp add: t published_as_append published_as_log)
  have "length (publish_calls ?acts) = length pre"
    using a by (induction pre)
      (auto simp: publish_calls_append post_body_publishes accepted_post_def split: sum.splits)
  then show "length (publish_calls ?t) = length pre"
    by (simp add: t publish_calls_append)
  have "error_logs ?acts = []"
    by (rule concat_bodies_errors) (rule post_body_errors)
  then show "error_logs ?t = [''Error streaming posts: '' @ exn_str e]"
    by (simp add: t error_logs_append)
next
  assume a: "list_all (accepted_notification w) pre \<and> notification_event_data bad = Inl e"
  let ?t = "stream_notifications w self (map Yield pre @ Yield bad # rest)"
  let ?acts = "concat (map (\<lambda>x. fst (notification_body w self x)) pre)"
  from a have "list_all (\<lambda>x. snd (notification_body w self x) = None) pre"
    by (simp add: list_all_iff notification_body_accepted)
  moreover from a have "notification_body w self bad = ([], Some e)"
    by (simp add: notification_body_malformed)
  ultimately have t: "?t = ?acts @ [LogError (''Error streaming notifications: '' @ exn_str e)]"
    by (simp add: stream_notifications_def loop_prefix_then_raise)
  have pub: "map Inr (published_as ''notification'' ?acts) = map notification_event_data pre"
    using a by (simp add: good_notifications_published)
  show "map Inr (published_as ''notification'' ?t) = map notification_event_data pre"
    using pub by (simp add: t published_as_append published_as_log)
  have "length (publish_calls ?acts) = length pre"
    using a by (induction pre)
      (auto simp: publish_calls_append notification_body_publishes accepted_notification_def
            split: sum.splits)
  then show "length (publish_calls ?t) = length pre"
    by (simp add: t publish_calls_append)
  have "error_logs ?acts = []"
    by (rule concat_bodies_errors) (rule notification_body_errors)
  then show "error_logs ?t = [''Error streaming notifications: '' @ exn_str e]"
    by (simp add: t error_logs_append)
qed

theorem malformed_event_ends_stream_witness:
  "(list_all (accepted_post (calm_world [] [])) [sample_post ''1'', sample_post ''2''] \<and>
    post_event_data malformed_post = Inl (AttributeError ''author'')) \<and>
   (map Inr (published_as ''new_post''
      (stream_posts (calm_world [] []) sample_daemon
         (map Yield [sample_post ''1'', sample_post ''2''] @
          Yield malformed_post # [Yield (sample_post ''4'')]))) =
      map post_event_data [sample_post ''1'', sample_post ''2'']) \<and>
   (list_all (accepted_notification (calm_world [] [])) [sample_notification ''like''] \<and>
    notification_event_data malformed_notification = Inl (AttributeError ''author'')) \<and>
   (error_logs
      (stream_notifications (calm_world [] []) sample_daemon
         (map Yield [sample_notification ''like''] @
          Yield malformed_notification # [Yield (sample_notification ''follow'')])) =
      [''Error streaming notifications: '' @ exn_str (AttributeError ''author'')])"
proof -
  have h1: "list_all (accepted_post (calm_world [] [])) [sample_post ''1'', sample_post ''2''] \<and>
      post_event_data malformed_post = Inl (AttributeError ''author'')"
    by code_simp
  have h2: "list_all (accepted_notification (calm_world [] [])) [sample_notification ''like''] \<and>
      notification_event_data malformed_notification = Inl (AttributeError ''author'')"
    by code_simp
  show ?thesis
    using h1 h2
      malformed_event_ends_stream [where w = "calm_world [] []" and self = sample_daemon
        and pre = "[sample_post ''1'', sample_post ''2'']" and bad = malformed_post
        and e = "AttributeError ''author''" and rest = "[Yield (sample_post ''4'')]"]
      malformed_event_ends_stream [where w = "calm_world [] []" and self = sample_daemon
        and pre = "[sample_notification ''like'']" and bad = malformed_notification
        and e = "AttributeError ''author''" and rest = "[Yield (sample_notification ''follow'')]"]
    by blast
qed

text \<open>
  C1 (as stated) fails. The stream delivers the posts 1 and 2, a post without author, and
  the post 4. The sink receives the posts 1 and 2 only, not three events: the post 4 is
  never read.
\<close>

theorem malformed_event_counterexample:
  "published_as ''new_post''
     (stream_posts (calm_world [] []) sample_daemon
        [Yield (sample_post ''1''), Yield (sample_post ''2''), Yield malformed_post,
         Yield (sample_post ''4'')]) =
     [sample_post_data ''1'', sample_post_data ''2''] \<and>
   length (publish_calls
     (stream_posts (calm_world [] []) sample_daemon
        [Yield (sample_post ''1''), Yield (sample_post ''2''), Yield malformed_post,
         Yield (sample_post ''4'')])) \<noteq> 3"
  by code_simp

subsection \<open>Order of delivery\<close>

text \<open>
  C2. Whatever the order in which the two loops take their turns, the events of one
  stream reach the channel in the order in which the stream delivered them: the payloads
  published under the name of a stream are the reshaped forms of an initial segment of
  the objects that stream yielded, one for one and in the same order.
\<close>

theorem fifo_per_stream:
  "(\<exists>k. map Inr (published_as ''new_post'' (fst (run w self sched))) =
         map post_event_data (take k (yields (search_posts w)))) \<and>
   (\<exists>k. map Inr (published_as ''notification'' (fst (run w self sched))) =
         map notification_event_data (take k (yields (notifications w))))"
proof (cases "snd (authenticate w self)")
  case None
  then have t: "fst (run w self sched) = fst (authenticate w self) @
      fst (gather w self sched (Running (search_posts w), Running (notifications w)))"
    by (simp add: run_trace)
  show ?thesis
    using gather_posts_fifo [of w self sched "Running (search_posts w)" "Running (notifications w)"]
      gather_notifications_fifo [of w self sched "Running (search_posts w)" "Running (notifications w)"]
    by (simp add: t published_as_append authenticate_published)
next
  case (Some e)
  then have t: "fst (run w self sched) = fst (authenticate w self)"
    by (simp add: run_trace)
  have "map Inr (published_as ''new_post'' (fst (run w self sched))) =
      map post_event_data (take 0 (yields (search_posts w)))"
    by (simp add: t authenticate_published)
  moreover have "map Inr (published_as ''notification'' (fst (run w self sched))) =
      map notification_event_data (take 0 (yields (notifications w)))"
    by (simp add: t authenticate_published)
  ultimately show ?thesis by blast
qed

subsection \<open>Authentication\<close>

text \<open>
  C3. When the login call raises, the daemon started by the script logs the error
  (\<open>Authentication failed: ...\<close> with the cause) and the exception leaves
  \<^verbatim>\<open>authenticate\<close>, \<^verbatim>\<open>run\<close> and \<^verbatim>\<open>main\<close>; the process ends with exit status 1.
  Nothing happens after the log record.
\<close>

theorem authentication_failure_is_fatal:
  assumes "self = init dotenv environ None None None ''bsky-events''"
    and "login_result w (bsky_username self) (bsky_password self) = Some e"
  shows "script dotenv environ w sched =
           ([Login (bsky_username self) (bsky_password self),
             LogError (''Authentication failed: '' @ exn_str e)], Some 1)"
  using assms by (simp add: script_def main_def run_def authenticate_def)

theorem authentication_failure_is_fatal_witness:
  "login_result (locked_world [Yield (sample_post ''1'')] [])
     (bsky_username (init Map.empty Map.empty None None None ''bsky-events''))
     (bsky_password (init Map.empty Map.empty None None None ''bsky-events'')) =
     Some (Exception ''Invalid identifier or password'') \<and>
   script Map.empty Map.empty (locked_world [Yield (sample_post ''1'')] []) [PostsTask] =
     ([Login None None, LogError ''Authentication failed: Invalid identifier or password''],
      Some 1)"
proof -
  have h: "login_result (locked_world [Yield (sample_post ''1'')] [])
     (bsky_username (init Map.empty Map.empty None None None ''bsky-events''))
     (bsky_password (init Map.empty Map.empty None None None ''bsky-events'')) =
     Some (Exception ''Invalid identifier or password'')"
    by (simp add: locked_world_def)
  show ?thesis
    using h authentication_failure_is_fatal [OF refl h, of "[PostsTask]"]
    by (simp add: init_def py_or_def load_dotenv_def)
qed

text \<open>
  C10. In every run, no publish call precedes the record that authentication succeeded,
  which is written right after the login call returns; and when the login call raises,
  the run makes no publish call at all.
\<close>

theorem no_publish_before_authentication:
  "publish_calls (takeWhile (\<lambda>a. a \<noteq> auth_ok) (fst (run w self sched))) = [] \<and>
   (login_result w (bsky_username self) (bsky_password self) = None \<longrightarrow>
      take 2 (fst (run w self sched)) =
        [Login (bsky_username self) (bsky_password self), auth_ok]) \<and>
   (login_result w (bsky_username self) (bsky_password self) \<noteq> None \<longrightarrow>
      publish_calls (fst (run w self sched)) = [])"
  by (cases "login_result w (bsky_username self) (bsky_password self)")
     (simp_all add: run_trace authenticate_def auth_ok_def)

theorem no_publish_before_authentication_witness:
  "login_result (calm_world [Yield (sample_post ''1'')] []) (bsky_username sample_daemon)
     (bsky_password sample_daemon) = None \<and>
   take 2 (fst (run (calm_world [Yield (sample_post ''1'')] []) sample_daemon [PostsTask])) =
     [Login (Some ''alice'') (Some ''pw''), auth_ok] \<and>
   publish_calls (fst (run (calm_world [Yield (sample_post ''1'')] []) sample_daemon [PostsTask])) =
     [(''new_post'', sample_post_data ''1'')] \<and>
   login_result (locked_world [Yield (sample_post ''1'')] []) (bsky_username sample_daemon)
     (bsky_password sample_daemon) \<noteq> None \<and>
   publish_calls (fst (run (locked_world [Yield (sample_post ''1'')] []) sample_daemon [PostsTask])) = []"
proof -
  have h1: "login_result (calm_world [Yield (sample_post ''1'')] []) (bsky_username sample_daemon)
     (bsky_password sample_daemon) = None"
    by (simp add: calm_world_def)
  have h2: "login_result (locked_world [Yield (sample_post ''1'')] []) (bsky_username sample_daemon)
     (bsky_password sample_daemon) \<noteq> None"
    by (simp add: locked_world_def)
  have d: "bsky_username sample_daemon = Some ''alice''" "bsky_password sample_daemon = Some ''pw''"
    by (simp_all add: sample_daemon_def init_def py_or_def)
  have p: "publish_calls (fst (run (calm_world [Yield (sample_post ''1'')] []) sample_daemon [PostsTask])) =
     [(''new_post'', sample_post_data ''1'')]"
    by code_simp
  show ?thesis
    using h1 h2 d p
      no_publish_before_authentication [of "calm_world [Yield (sample_post ''1'')] []" sample_daemon "[PostsTask]"]
      no_publish_before_authentication [of "locked_world [Yield (sample_post ''1'')] []" sample_daemon "[PostsTask]"]
    by simp
qed

subsection \<open>Credentials\<close>

text \<open>
  C9. For each of the three credentials, a constructor argument that is truthy (a
  non-empty string) is what the daemon keeps; the environment variable (as it is after
  \<^verbatim>\<open>load_dotenv\<close>) is used exactly when the argument is \<^verbatim>\<open>None\<close> or empty.
\<close>

theorem explicit_credentials_take_precedence:
  "(truthy u \<longrightarrow> bsky_username (init dotenv environ u p k c) = u) \<and>
   (\<not> truthy u \<longrightarrow>
      bsky_username (init dotenv environ u p k c) = load_dotenv dotenv environ ''BSKY_USERNAME'') \<and>
   (truthy p \<longrightarrow> bsky_password (init dotenv environ u p k c) = p) \<and>
   (\<not> truthy p \<longrightarrow>
      bsky_password (init dotenv environ u p k c) = load_dotenv dotenv environ ''BSKY_PASSWORD'') \<and>
   (truthy k \<longrightarrow> ably_api_key (init dotenv environ u p k c) = k) \<and>
   (\<not> truthy k \<longrightarrow>
      ably_api_key (init dotenv environ u p k c) = load_dotenv dotenv environ ''ABLY_API_KEY'')"
  by (simp add: init_def py_or_def Let_def)

theorem explicit_credentials_take_precedence_witness:
  "truthy (Some ''alice'') \<and> truthy (Some ''pw'') \<and> truthy (Some ''key'') \<and>
   bsky_username (init Map.empty [''BSKY_USERNAME'' \<mapsto> ''env_user''] (Some ''alice'') (Some ''pw'') (Some ''key'') ''c'') = Some ''alice'' \<and>
   bsky_password (init Map.empty [''BSKY_USERNAME'' \<mapsto> ''env_user''] (Some ''alice'') (Some ''pw'') (Some ''key'') ''c'') = Some ''pw'' \<and>
   ably_api_key (init Map.empty [''BSKY_USERNAME'' \<mapsto> ''env_user''] (Some ''alice'') (Some ''pw'') (Some ''key'') ''c'') = Some ''key'' \<and>
   \<not> truthy None \<and> \<not> truthy (Some '''') \<and>
   bsky_username (init Map.empty [''BSKY_USERNAME'' \<mapsto> ''env_user''] None (Some '''') None ''c'') = Some ''env_user'' \<and>
   bsky_password (init Map.empty [''BSKY_USERNAME'' \<mapsto> ''env_user''] None (Some '''') None ''c'') = None \<and>
   ably_api_key (init Map.empty [''BSKY_USERNAME'' \<mapsto> ''env_user''] None (Some '''') None ''c'') = None"
  using
    explicit_credentials_take_precedence [of "Some ''alice''" Map.empty
      "[''BSKY_USERNAME'' \<mapsto> ''env_user'']" "Some ''pw''" "Some ''key''" "''c''"]
    explicit_credentials_take_precedence [of None Map.empty
      "[''BSKY_USERNAME'' \<mapsto> ''env_user'']" "Some ''''" None "''c''"]
  by (simp add: load_dotenv_def)

subsection \<open>The shape of what is published\<close>

text \<open>
  C7 (as amended). Every payload handed to \<^verbatim>\<open>channel.publish\<close>, in every run, has one
  of two shapes. Under the name \<open>new_post\<close> it is a dictionary with exactly the keys
  \<open>type\<close>, \<open>did\<close>, \<open>cid\<close>, \<open>text\<close>, \<open>timestamp\<close>, in this order, and \<open>type\<close> is
  \<open>post\<close>. Under the name \<open>notification\<close> it is a dictionary with exactly the keys
  \<open>type\<close>, \<open>reason\<close>, \<open>author\<close>, \<open>record\<close>, and \<open>type\<close> is \<open>notification\<close>.
\<close>

theorem published_payload_shapes:
  "list_all well_shaped_call (publish_calls (fst (run w self sched)))"
  by (cases "snd (authenticate w self)")
     (simp_all add: run_trace publish_calls_append authenticate_calls gather_shape)

text \<open>
  C7 (as stated) fails. A post and a notification are published with payloads that have
  different keys, and neither payload has the five fields of the canonical record.
\<close>

theorem canonical_shape_counterexample:
  "publish_calls (stream_posts (calm_world [] []) sample_daemon [Yield (sample_post ''1'')]) =
     [(''new_post'', sample_post_data ''1'')] \<and>
   publish_calls (stream_notifications (calm_world [] []) sample_daemon
     [Yield (sample_notification ''like'')]) =
     [(''notification'', sample_notification_data ''like'')] \<and>
   \<not> spec_canonical_shape (sample_post_data ''1'') \<and>
   \<not> spec_canonical_shape (sample_notification_data ''like'') \<and>
   map fst (sample_post_data ''1'') \<noteq> map fst (sample_notification_data ''like'')"
  by code_simp

subsection \<open>One stream fails, the other goes on\<close>

text \<open>
  C5. When a stream raises, the turn that meets the exception logs it and ends the task of
  that stream; the task of the other stream is left exactly as it was. Whatever the
  order of turns, what one loop publishes and the state it reaches do not depend on the
  other task at all, interrupted or not. In particular, after one stream has been
  interrupted, the other loop publishes every event it is given, in order.
\<close>

theorem interruption_is_local:
  "gather w self [PostsTask] (Running (Raise e # rest), n) =
     ([LogError (''Error streaming posts: '' @ exn_str e)], (Finished, n)) \<and>
   gather w self [NotificationsTask] (p, Running (Raise e # rest)) =
     ([LogError (''Error streaming notifications: '' @ exn_str e)], (p, Finished)) \<and>
   published_as ''notification'' (fst (gather w self sched (p, n))) =
     published_as ''notification'' (fst (gather w self sched (p', n))) \<and>
   snd (snd (gather w self sched (p, n))) = snd (snd (gather w self sched (p', n))) \<and>
   published_as ''new_post'' (fst (gather w self sched (p, n))) =
     published_as ''new_post'' (fst (gather w self sched (p, n'))) \<and>
   fst (snd (gather w self sched (p, n))) = fst (snd (gather w self sched (p, n'))) \<and>
   (list_all (accepted_notification w) xs \<longrightarrow>
      map Inr (published_as ''notification''
        (fst (gather w self (PostsTask # replicate (length xs) NotificationsTask)
           (Running (Raise e # rest), Running (map Yield xs))))) =
        map notification_event_data xs) \<and>
   (list_all (accepted_post w) xs \<longrightarrow>
      map Inr (published_as ''new_post''
        (fst (gather w self (NotificationsTask # replicate (length xs) PostsTask)
           (Running (map Yield xs), Running (Raise e # rest))))) =
        map post_event_data xs)"
proof (intro conjI impI)
  show "gather w self [PostsTask] (Running (Raise e # rest), n) =
      ([LogError (''Error streaming posts: '' @ exn_str e)], (Finished, n))"
    by simp
  show "gather w self [NotificationsTask] (p, Running (Raise e # rest)) =
      ([LogError (''Error streaming notifications: '' @ exn_str e)], (p, Finished))"
    by simp
  show "published_as ''notification'' (fst (gather w self sched (p, n))) =
      published_as ''notification'' (fst (gather w self sched (p', n)))"
    using gather_posts_frame [of w self sched p n p'] by simp
  show "snd (snd (gather w self sched (p, n))) = snd (snd (gather w self sched (p', n)))"
    using gather_posts_frame [of w self sched p n p'] by simp
  show "published_as ''new_post'' (fst (gather w self sched (p, n))) =
      published_as ''new_post'' (fst (gather w self sched (p, n')))"
    using gather_notifications_frame [of w self sched p n n'] by simp
  show "fst (snd (gather w self sched (p, n))) = fst (snd (gather w self sched (p, n')))"
    using gather_notifications_frame [of w self sched p n n'] by simp
next
  assume a: "list_all (accepted_notification w) xs"
  then show "map Inr (published_as ''notification''
      (fst (gather w self (PostsTask # replicate (length xs) NotificationsTask)
         (Running (Raise e # rest), Running (map Yield xs))))) =
      map notification_event_data xs"
    by (simp add: gather_trace notifications_turns good_notifications_published
        published_as_append published_as_skip del: gather.simps)
next
  assume a: "list_all (accepted_post w) xs"
  then show "map Inr (published_as ''new_post''
      (fst (gather w self (NotificationsTask # replicate (length xs) PostsTask)
         (Running (map Yield xs), Running (Raise e # rest))))) =
      map post_event_data xs"
    by (simp add: gather_trace posts_turns good_posts_published
        published_as_append published_as_skip del: gather.simps)
qed

theorem interruption_is_local_witness:
  "list_all (accepted_notification (calm_world [] []))
     [sample_notification ''like'', sample_notification ''follow''] \<and>
   map Inr (published_as ''notification''
     (fst (gather (calm_world [] []) sample_daemon
        (PostsTask # replicate (length [sample_notification ''like'', sample_notification ''follow''])
           NotificationsTask)
        (Running (Raise (Exception ''connection lost'') # [Yield (sample_post ''1'')]),
         Running (map Yield [sample_notification ''like'', sample_notification ''follow'']))))) =
     map notification_event_data [sample_notification ''like'', sample_notification ''follow''] \<and>
   list_all (accepted_post (calm_world [] [])) [sample_post ''1'', sample_post ''2''] \<and>
   map Inr (published_as ''new_post''
     (fst (gather (calm_world [] []) sample_daemon
        (NotificationsTask # replicate (length [sample_post ''1'', sample_post ''2'']) PostsTask)
        (Running (map Yield [sample_post ''1'', sample_post ''2'']),
         Running (Raise (Exception ''connection lost'') # [Yield (sample_post ''1'')]))))) =
     map post_event_data [sample_post ''1'', sample_post ''2'']"
proof -
  have h1: "list_all (accepted_notification (calm_world [] []))
     [sample_notification ''like'', sample_notification ''follow'']"
    by code_simp
  have h2: "list_all (accepted_post (calm_world [] [])) [sample_post ''1'', sample_post ''2'']"
    by code_simp
  show ?thesis
    using h1 h2
      interruption_is_local [where w = "calm_world [] []" and self = sample_daemon
        and xs = "[sample_notification ''like'', sample_notification ''follow'']"
        and e = "Exception ''connection lost''" and rest = "[Yield (sample_post ''1'')]"]
      interruption_is_local [where w = "calm_world [] []" and self = sample_daemon
        and xs = "[sample_post ''1'', sample_post ''2'']"
        and e = "Exception ''connection lost''" and rest = "[Yield (sample_post ''1'')]"]
    by blast
qed

subsection \<open>The bounded queue under \<open>DropOldest\<close>\<close>




subsection \<open>What is recorded about errors\<close>

text \<open>
  C4 (as amended). An exception that ends a stream loop is logged, once, with its cause,
  and a loop that ends without exception logs no error. The daemon has no drop counter.
  After any events that went through, a stream that raises, an event that cannot be
  reshaped, or a publish call that raises ends the loop: the trace is the trace of the
  events before it, followed by the refused publish call if there was one and by a single
  error record. The events that the stream would have delivered later leave no mark at
  all. No loop ever writes more than one error record.
\<close>

theorem errors_are_logged_once:
  "(list_all (accepted_post w) pre \<longrightarrow>
      error_logs (stream_posts w self (map Yield pre)) = [] \<and>
      map Inr (published_as ''new_post'' (stream_posts w self (map Yield pre))) =
        map post_event_data pre \<and>
      length (publish_calls (stream_posts w self (map Yield pre))) = length pre \<and>
      stream_posts w self (map Yield pre @ Raise e # rest) =
        stream_posts w self (map Yield pre) @
        [LogError (''Error streaming posts: '' @ exn_str e)] \<and>
      (post_event_data bad = Inl e \<longrightarrow>
         stream_posts w self (map Yield pre @ Yield bad # rest) =
           stream_posts w self (map Yield pre) @
           [LogError (''Error streaming posts: '' @ exn_str e)]) \<and>
      (post_event_data bad = Inr d \<and> publish_result w ''new_post'' d = Some e \<longrightarrow>
         stream_posts w self (map Yield pre @ Yield bad # rest) =
           stream_posts w self (map Yield pre) @
           [Publish (channel_name self) ''new_post'' d,
            LogError (''Error streaming posts: '' @ exn_str e)])) \<and>
   (list_all (accepted_notification w) pre \<longrightarrow>
      error_logs (stream_notifications w self (map Yield pre)) = [] \<and>
      map Inr (published_as ''notification'' (stream_notifications w self (map Yield pre))) =
        map notification_event_data pre \<and>
      length (publish_calls (stream_notifications w self (map Yield pre))) = length pre \<and>
      stream_notifications w self (map Yield pre @ Raise e # rest) =
        stream_notifications w self (map Yield pre) @
        [LogError (''Error streaming notifications: '' @ exn_str e)] \<and>
      (notification_event_data bad = Inl e \<longrightarrow>
         stream_notifications w self (map Yield pre @ Yield bad # rest) =
           stream_notifications w self (map Yield pre) @
           [LogError (''Error streaming notifications: '' @ exn_str e)]) \<and>
      (notification_event_data bad = Inr d \<and> publish_result w ''notification'' d = Some e \<longrightarrow>
         stream_notifications w self (map Yield pre @ Yield bad # rest) =
           stream_notifications w self (map Yield pre) @
           [Publish (channel_name self) ''notification'' d,
            LogError (''Error streaming notifications: '' @ exn_str e)])) \<and>
   length (error_logs (stream_posts w self items)) \<le> 1 \<and>
   length (error_logs (stream_notifications w self items)) \<le> 1"
proof (intro conjI impI)
  show "length (error_logs (stream_posts w self items)) \<le> 1"
    by (rule stream_posts_errors_le)
  show "length (error_logs (stream_notifications w self items)) \<le> 1"
    by (rule stream_notifications_errors_le)
next
  assume a: "list_all (accepted_post w) pre"
  note g = stream_posts_all_good [OF a, of self]
  show "error_logs (stream_posts w self (map Yield pre)) = []"
    by (rule g(3))
  show "map Inr (published_as ''new_post'' (stream_posts w self (map Yield pre))) =
      map post_event_data pre"
    by (rule g(4))
  show "length (publish_calls (stream_posts w self (map Yield pre))) = length pre"
    by (rule g(5))
  show "stream_posts w self (map Yield pre @ Raise e # rest) =
      stream_posts w self (map Yield pre) @ [LogError (''Error streaming posts: '' @ exn_str e)]"
    using loop_prefix_then_Raise [OF g(2), of e rest]
    by (simp add: g(1) stream_posts_trace [of w self "map Yield pre @ Raise e # rest"])
  {
    assume "post_event_data bad = Inl e"
    then have "post_body w self bad = ([], Some e)"
      by (rule post_body_malformed)
    from loop_prefix_then_stop [OF g(2) this, of rest]
    show "stream_posts w self (map Yield pre @ Yield bad # rest) =
        stream_posts w self (map Yield pre) @ [LogError (''Error streaming posts: '' @ exn_str e)]"
      by (simp add: g(1) stream_posts_trace [of w self "map Yield pre @ Yield bad # rest"])
  }
  {
    assume "post_event_data bad = Inr d \<and> publish_result w ''new_post'' d = Some e"
    then have "post_body w self bad = ([Publish (channel_name self) ''new_post'' d], Some e)"
      by (simp add: post_body_rejected)
    from loop_prefix_then_stop [OF g(2) this, of rest]
    show "stream_posts w self (map Yield pre @ Yield bad # rest) =
        stream_posts w self (map Yield pre) @
        [Publish (channel_name self) ''new_post'' d,
         LogError (''Error streaming posts: '' @ exn_str e)]"
      by (simp add: g(1) stream_posts_trace [of w self "map Yield pre @ Yield bad # rest"])
  }
next
  assume a: "list_all (accepted_notification w) pre"
  note g = stream_notifications_all_good [OF a, of self]
  show "error_logs (stream_notifications w self (map Yield pre)) = []"
    by (rule g(3))
  show "map Inr (published_as ''notification'' (stream_notifications w self (map Yield pre))) =
      map notification_event_data pre"
    by (rule g(4))
  show "length (publish_calls (stream_notifications w self (map Yield pre))) = length pre"
    by (rule g(5))
  show "stream_notifications w self (map Yield pre @ Raise e # rest) =
      stream_notifications w self (map Yield pre) @
      [LogError (''Error streaming notifications: '' @ exn_str e)]"
    using loop_prefix_then_Raise [OF g(2), of e rest]
    by (simp add: g(1) stream_notifications_trace [of w self "map Yield pre @ Raise e # rest"])
  {
    assume "notification_event_data bad = Inl e"
    then have "notification_body w self bad = ([], Some e)"
      by (rule notification_body_malformed)
    from loop_prefix_then_stop [OF g(2) this, of rest]
    show "stream_notifications w self (map Yield pre @ Yield bad # rest) =
        stream_notifications w self (map Yield pre) @
        [LogError (''Error streaming notifications: '' @ exn_str e)]"
      by (simp add: g(1)
          stream_notifications_trace [of w self "map Yield pre @ Yield bad # rest"])
  }
  {
    assume "notification_event_data bad = Inr d \<and> publish_result w ''notification'' d = Some e"
    then have "notification_body w self bad =
        ([Publish (channel_name self) ''notification'' d], Some e)"
      by (simp add: notification_body_rejected)
    from loop_prefix_then_stop [OF g(2) this, of rest]
    show "stream_notifications w self (map Yield pre @ Yield bad # rest) =
        stream_notifications w self (map Yield pre) @
        [Publish (channel_name self) ''notification'' d,
         LogError (''Error streaming notifications: '' @ exn_str e)]"
      by (simp add: g(1)
          stream_notifications_trace [of w self "map Yield pre @ Yield bad # rest"])
  }
qed

theorem errors_are_logged_once_witness:
  "(list_all (accepted_post (calm_world [] [])) [sample_post ''1'', sample_post ''2''] \<and>
    post_event_data malformed_post = Inl (AttributeError ''author'') \<and>
    stream_posts (calm_world [] []) sample_daemon
      (map Yield [sample_post ''1'', sample_post ''2''] @
       Yield malformed_post # [Yield (sample_post ''4'')]) =
      stream_posts (calm_world [] []) sample_daemon
        (map Yield [sample_post ''1'', sample_post ''2'']) @
      [LogError (''Error streaming posts: '' @ exn_str (AttributeError ''author''))]) \<and>
   (list_all (accepted_post (picky_world [] [])) [sample_post ''1'', sample_post ''2''] \<and>
    post_event_data (sample_post ''3'') = Inr (sample_post_data ''3'') \<and>
    publish_result (picky_world [] []) ''new_post'' (sample_post_data ''3'') =
      Some (Exception ''payload rejected'') \<and>
    stream_posts (picky_world [] []) sample_daemon
      (map Yield [sample_post ''1'', sample_post ''2''] @
       Yield (sample_post ''3'') # [Yield (sample_post ''4'')]) =
      stream_posts (picky_world [] []) sample_daemon
        (map Yield [sample_post ''1'', sample_post ''2'']) @
      [Publish (channel_name sample_daemon) ''new_post'' (sample_post_data ''3''),
       LogError (''Error streaming posts: '' @ exn_str (Exception ''payload rejected''))]) \<and>
   (list_all (accepted_notification (calm_world [] [])) [sample_notification ''like''] \<and>
    notification_event_data malformed_notification = Inl (AttributeError ''author'') \<and>
    stream_notifications (calm_world [] []) sample_daemon
      (map Yield [sample_notification ''like''] @
       Yield malformed_notification # [Yield (sample_notification ''follow'')]) =
      stream_notifications (calm_world [] []) sample_daemon
        (map Yield [sample_notification ''like'']) @
      [LogError (''Error streaming notifications: '' @ exn_str (AttributeError ''author''))]) \<and>
   (list_all (accepted_notification (picky_world [] [])) [sample_notification ''like''] \<and>
    notification_event_data (sample_notification ''spam'') =
      Inr (sample_notification_data ''spam'') \<and>
    publish_result (picky_world [] []) ''notification'' (sample_notification_data ''spam'') =
      Some (Exception ''payload rejected'') \<and>
    stream_notifications (picky_world [] []) sample_daemon
      (map Yield [sample_notification ''like''] @
       Yield (sample_notification ''spam'') # [Yield (sample_notification ''follow'')]) =
      stream_notifications (picky_world [] []) sample_daemon
        (map Yield [sample_notification ''like'']) @
      [Publish (channel_name sample_daemon) ''notification'' (sample_notification_data ''spam''),
       LogError (''Error streaming notifications: '' @ exn_str (Exception ''payload rejected''))])"
proof -
  have h1: "list_all (accepted_post (calm_world [] [])) [sample_post ''1'', sample_post ''2'']"
    "post_event_data malformed_post = Inl (AttributeError ''author'')"
    by code_simp+
  have h2: "list_all (accepted_post (picky_world [] [])) [sample_post ''1'', sample_post ''2'']"
    "post_event_data (sample_post ''3'') = Inr (sample_post_data ''3'')"
    "publish_result (picky_world [] []) ''new_post'' (sample_post_data ''3'') =
      Some (Exception ''payload rejected'')"
    by code_simp+
  have h3: "list_all (accepted_notification (calm_world [] [])) [sample_notification ''like'']"
    "notification_event_data malformed_notification = Inl (AttributeError ''author'')"
    by code_simp+
  have h4: "list_all (accepted_notification (picky_world [] [])) [sample_notification ''like'']"
    "notification_event_data (sample_notification ''spam'') =
      Inr (sample_notification_data ''spam'')"
    "publish_result (picky_world [] []) ''notification'' (sample_notification_data ''spam'') =
      Some (Exception ''payload rejected'')"
    by code_simp+
  note p1 = errors_are_logged_once [where w = "calm_world [] []" and self = sample_daemon
        and pre = "[sample_post ''1'', sample_post ''2'']" and bad = malformed_post
        and e = "AttributeError ''author''" and rest = "[Yield (sample_post ''4'')]",
        THEN conjunct1, rule_format, OF h1(1)]
  note p2 = errors_are_logged_once [where w = "picky_world [] []" and self = sample_daemon
        and pre = "[sample_post ''1'', sample_post ''2'']" and bad = "sample_post ''3''"
        and d = "sample_post_data ''3''"
        and e = "Exception ''payload rejected''" and rest = "[Yield (sample_post ''4'')]",
        THEN conjunct1, rule_format, OF h2(1)]
  note p3 = errors_are_logged_once [where w = "calm_world [] []" and self = sample_daemon
        and pre = "[sample_notification ''like'']" and bad = malformed_notification
        and e = "AttributeError ''author''" and rest = "[Yield (sample_notification ''follow'')]",
        THEN conjunct2, THEN conjunct1, rule_format, OF h3(1)]
  note p4 = errors_are_logged_once [where w = "picky_world [] []" and self = sample_daemon
        and pre = "[sample_notification ''like'']" and bad = "sample_notification ''spam''"
        and d = "sample_notification_data ''spam''"
        and e = "Exception ''payload rejected''"
        and rest = "[Yield (sample_notification ''follow'')]",
        THEN conjunct2, THEN conjunct1, rule_format, OF h4(1)]
  from p1 h1(2) have c1: "stream_posts (calm_world [] []) sample_daemon
      (map Yield [sample_post ''1'', sample_post ''2''] @
       Yield malformed_post # [Yield (sample_post ''4'')]) =
      stream_posts (calm_world [] []) sample_daemon
        (map Yield [sample_post ''1'', sample_post ''2'']) @
      [LogError (''Error streaming posts: '' @ exn_str (AttributeError ''author''))]"
    by blast
  from p2 h2(2,3) have c2: "stream_posts (picky_world [] []) sample_daemon
      (map Yield [sample_post ''1'', sample_post ''2''] @
       Yield (sample_post ''3'') # [Yield (sample_post ''4'')]) =
      stream_posts (picky_world [] []) sample_daemon
        (map Yield [sample_post ''1'', sample_post ''2'']) @
      [Publish (channel_name sample_daemon) ''new_post'' (sample_post_data ''3''),
       LogError (''Error streaming posts: '' @ exn_str (Exception ''payload rejected''))]"
    by blast
  from p3 h3(2) have c3: "stream_notifications (calm_world [] []) sample_daemon
      (map Yield [sample_notification ''like''] @
       Yield malformed_notification # [Yield (sample_notification ''follow'')]) =
      stream_notifications (calm_world [] []) sample_daemon
        (map Yield [sample_notification ''like'']) @
      [LogError (''Error streaming notifications: '' @ exn_str (AttributeError ''author''))]"
    by blast
  from p4 h4(2,3) have c4: "stream_notifications (picky_world [] []) sample_daemon
      (map Yield [sample_notification ''like''] @
       Yield (sample_notification ''spam'') # [Yield (sample_notification ''follow'')]) =
      stream_notifications (picky_world [] []) sample_daemon
        (map Yield [sample_notification ''like'']) @
      [Publish (channel_name sample_daemon) ''notification'' (sample_notification_data ''spam''),
       LogError (''Error streaming notifications: '' @ exn_str (Exception ''payload rejected''))]"
    by blast
  show ?thesis
    by (intro conjI h1 h2 h3 h4 c1 c2 c3 c4)
qed

text \<open>
  C4 (as stated) fails. A stream delivers a malformed post and two well-formed ones. None
  of the three reaches the channel, and all that can be observed is a single error
  record: nothing counts the lost events.
\<close>

theorem dropped_events_counterexample:
  "stream_posts (calm_world [] []) sample_daemon
     [Yield malformed_post, Yield (sample_post ''2''), Yield (sample_post ''3'')] =
     [LogError (''Error streaming posts: '' @ exn_str (AttributeError ''author''))] \<and>
   publish_calls (stream_posts (calm_world [] []) sample_daemon
     [Yield malformed_post, Yield (sample_post ''2''), Yield (sample_post ''3'')]) = [] \<and>
   length (error_logs (stream_posts (calm_world [] []) sample_daemon
     [Yield malformed_post, Yield (sample_post ''2''), Yield (sample_post ''3'')])) = 1"
  by code_simp

subsection \<open>Publish calls\<close>

text \<open>
  C6. One turn of a loop on an event that can be reshaped makes exactly one publish call,
  and that call carries the reshaped form of this one event; a turn on an event that
  cannot be reshaped makes none. A loop that receives an event makes that one call and
  goes on to the rest of the stream unless the call raised; an empty or raising stream
  gives no call. So an event that the loop receives after events that all went through,
  and that can be reshaped, is published at its own place, right after the calls for the
  events before it. Over a whole loop the publish calls correspond one for one, in order,
  to the first events of the stream: no call carries more than one event and no event is
  published twice.
\<close>

theorem one_publish_per_event:
  "publish_calls (fst (post_body w self x)) =
     (case post_event_data x of Inl e \<Rightarrow> [] | Inr d \<Rightarrow> [(''new_post'', d)]) \<and>
   publish_calls (fst (notification_body w self x)) =
     (case notification_event_data x of Inl e \<Rightarrow> [] | Inr d \<Rightarrow> [(''notification'', d)]) \<and>
   publish_calls (stream_posts w self []) = [] \<and>
   publish_calls (stream_posts w self (Raise e # rest)) = [] \<and>
   publish_calls (stream_posts w self (Yield x # rest)) =
     (case post_event_data x of
        Inl e \<Rightarrow> []
      | Inr d \<Rightarrow> (''new_post'', d) #
          (case publish_result w ''new_post'' d of
             None \<Rightarrow> publish_calls (stream_posts w self rest)
           | Some e \<Rightarrow> [])) \<and>
   publish_calls (stream_notifications w self []) = [] \<and>
   publish_calls (stream_notifications w self (Raise e # rest)) = [] \<and>
   publish_calls (stream_notifications w self (Yield x # rest)) =
     (case notification_event_data x of
        Inl e \<Rightarrow> []
      | Inr d \<Rightarrow> (''notification'', d) #
          (case publish_result w ''notification'' d of
             None \<Rightarrow> publish_calls (stream_notifications w self rest)
           | Some e \<Rightarrow> [])) \<and>
   (list_all (accepted_post w) pre \<and> post_event_data x = Inr d \<longrightarrow>
      (\<exists>ds. take (Suc (length pre))
              (publish_calls (stream_posts w self (map Yield pre @ Yield x # rest))) =
              map (Pair ''new_post'') (ds @ [d]) \<and>
            map Inr ds = map post_event_data pre)) \<and>
   (list_all (accepted_notification w) pre \<and> notification_event_data x = Inr d \<longrightarrow>
      (\<exists>ds. take (Suc (length pre))
              (publish_calls (stream_notifications w self (map Yield pre @ Yield x # rest))) =
              map (Pair ''notification'') (ds @ [d]) \<and>
            map Inr ds = map notification_event_data pre)) \<and>
   (\<exists>k ds. publish_calls (stream_posts w self items) = map (Pair ''new_post'') ds \<and>
            map Inr ds = map post_event_data (take k (yields items))) \<and>
   (\<exists>k ds. publish_calls (stream_notifications w self items) = map (Pair ''notification'') ds \<and>
            map Inr ds = map notification_event_data (take k (yields items)))"
proof (intro conjI impI)
  show "publish_calls (fst (post_body w self x)) =
      (case post_event_data x of Inl e \<Rightarrow> [] | Inr d \<Rightarrow> [(''new_post'', d)])"
    by (rule post_body_publishes)
  show "publish_calls (fst (notification_body w self x)) =
      (case notification_event_data x of Inl e \<Rightarrow> [] | Inr d \<Rightarrow> [(''notification'', d)])"
    by (rule notification_body_publishes)
  show "publish_calls (stream_posts w self []) = []"
    "publish_calls (stream_posts w self (Raise e # rest)) = []"
    "publish_calls (stream_notifications w self []) = []"
    "publish_calls (stream_notifications w self (Raise e # rest)) = []"
    by (rule stream_calls_ends)+
  show "publish_calls (stream_posts w self (Yield x # rest)) =
      (case post_event_data x of
         Inl e \<Rightarrow> []
       | Inr d \<Rightarrow> (''new_post'', d) #
           (case publish_result w ''new_post'' d of
              None \<Rightarrow> publish_calls (stream_posts w self rest)
            | Some e \<Rightarrow> []))"
    by (rule stream_posts_calls_Yield)
  show "publish_calls (stream_notifications w self (Yield x # rest)) =
      (case notification_event_data x of
         Inl e \<Rightarrow> []
       | Inr d \<Rightarrow> (''notification'', d) #
           (case publish_result w ''notification'' d of
              None \<Rightarrow> publish_calls (stream_notifications w self rest)
            | Some e \<Rightarrow> []))"
    by (rule stream_notifications_calls_Yield)
  have "\<exists>k ds. publish_calls (fst (async_for (post_body w self) items)) =
      map (Pair ''new_post'') ds \<and> map Inr ds = map post_event_data (take k (yields items))"
    by (rule async_for_calls) (simp_all add: post_body_publishes post_body_None)
  then show "\<exists>k ds. publish_calls (stream_posts w self items) = map (Pair ''new_post'') ds \<and>
      map Inr ds = map post_event_data (take k (yields items))"
    by (simp add: stream_posts_calls)
  have "\<exists>k ds. publish_calls (fst (async_for (notification_body w self) items)) =
      map (Pair ''notification'') ds \<and>
      map Inr ds = map notification_event_data (take k (yields items))"
    by (rule async_for_calls)
       (simp_all add: notification_body_publishes notification_body_None)
  then show "\<exists>k ds. publish_calls (stream_notifications w self items) =
      map (Pair ''notification'') ds \<and>
      map Inr ds = map notification_event_data (take k (yields items))"
    by (simp add: stream_notifications_calls)
next
  assume "list_all (accepted_post w) pre \<and> post_event_data x = Inr d"
  then have "list_all (accepted_post w) pre" "post_event_data x = Inr d"
    by simp_all
  then show "\<exists>ds. take (Suc (length pre))
        (publish_calls (stream_posts w self (map Yield pre @ Yield x # rest))) =
        map (Pair ''new_post'') (ds @ [d]) \<and>
      map Inr ds = map post_event_data pre"
    by (rule received_post_is_published)
next
  assume "list_all (accepted_notification w) pre \<and> notification_event_data x = Inr d"
  then have "list_all (accepted_notification w) pre" "notification_event_data x = Inr d"
    by simp_all
  then show "\<exists>ds. take (Suc (length pre))
        (publish_calls (stream_notifications w self (map Yield pre @ Yield x # rest))) =
        map (Pair ''notification'') (ds @ [d]) \<and>
      map Inr ds = map notification_event_data pre"
    by (rule received_notification_is_published)
qed

theorem one_publish_per_event_witness:
  "(list_all (accepted_post (calm_world [] [])) [sample_post ''1'', sample_post ''2''] \<and>
    post_event_data (sample_post ''3'') = Inr (sample_post_data ''3'')) \<and>
   (\<exists>ds. take (Suc (length [sample_post ''1'', sample_post ''2'']))
       (publish_calls (stream_posts (calm_world [] []) sample_daemon
          (map Yield [sample_post ''1'', sample_post ''2''] @
           Yield (sample_post ''3'') # [Yield (sample_post ''4'')]))) =
       map (Pair ''new_post'') (ds @ [sample_post_data ''3'']) \<and>
     map Inr ds = map post_event_data [sample_post ''1'', sample_post ''2'']) \<and>
   (list_all (accepted_notification (calm_world [] [])) [sample_notification ''like''] \<and>
    notification_event_data (sample_notification ''follow'') =
      Inr (sample_notification_data ''follow'')) \<and>
   (\<exists>ds. take (Suc (length [sample_notification ''like'']))
       (publish_calls (stream_notifications (calm_world [] []) sample_daemon
          (map Yield [sample_notification ''like''] @
           Yield (sample_notification ''follow'') # []))) =
       map (Pair ''notification'') (ds @ [sample_notification_data ''follow'']) \<and>
     map Inr ds = map notification_event_data [sample_notification ''like''])"
proof -
  have h1: "list_all (accepted_post (calm_world [] [])) [sample_post ''1'', sample_post ''2''] \<and>
    post_event_data (sample_post ''3'') = Inr (sample_post_data ''3'')"
    by code_simp
  have h2: "list_all (accepted_notification (calm_world [] [])) [sample_notification ''like''] \<and>
    notification_event_data (sample_notification ''follow'') =
      Inr (sample_notification_data ''follow'')"
    by code_simp
  note t1 = one_publish_per_event [where w = "calm_world [] []" and self = sample_daemon
      and pre = "[sample_post ''1'', sample_post ''2'']" and x = "sample_post ''3''"
      and d = "sample_post_data ''3''" and rest = "[Yield (sample_post ''4'')]"]
  note t2 = one_publish_per_event [where w = "calm_world [] []" and self = sample_daemon
      and pre = "[sample_notification ''like'']" and x = "sample_notification ''follow''"
      and d = "sample_notification_data ''follow''" and rest = "[]"]
  from t1 h1 have c1: "\<exists>ds. take (Suc (length [sample_post ''1'', sample_post ''2'']))
       (publish_calls (stream_posts (calm_world [] []) sample_daemon
          (map Yield [sample_post ''1'', sample_post ''2''] @
           Yield (sample_post ''3'') # [Yield (sample_post ''4'')]))) =
       map (Pair ''new_post'') (ds @ [sample_post_data ''3'']) \<and>
     map Inr ds = map post_event_data [sample_post ''1'', sample_post ''2'']"
    by blast
  from t2 h2 have c2: "\<exists>ds. take (Suc (length [sample_notification ''like'']))
       (publish_calls (stream_notifications (calm_world [] []) sample_daemon
          (map Yield [sample_notification ''like''] @
           Yield (sample_notification ''follow'') # []))) =
       map (Pair ''notification'') (ds @ [sample_notification_data ''follow'']) \<and>
     map Inr ds = map notification_event_data [sample_notification ''like'']"
    by blast
  show ?thesis
    by (intro conjI h1 [THEN conjunct1] h1 [THEN conjunct2] h2 [THEN conjunct1]
        h2 [THEN conjunct2] c1 c2)
qed

end
